theory Spec2Isabelle
  imports Complex_Main "HOL-Library.AList"
begin

section \<open>Python values used by the campaign engine\<close>

text \<open>
  The development embeds the campaign execution engine of the repository:
  \<^verbatim>\<open>src/core/delay_manager.py\<close> (rate limiting), \<^verbatim>\<open>src/core/campaign_manager.py\<close>
  (the sending loop, progress persistence), \<^verbatim>\<open>src/utils/analytics_tracker.py\<close>
  (metrics) and the return type of \<^verbatim>\<open>WhatsAppController.send_message\<close>.

  Python integers are \<open>int\<close>, strings are \<open>string\<close>, \<open>Optional[t]\<close> is \<open>t option\<close>,
  a \<open>dict\<close> with string keys is an association list in insertion order.  A call
  that may raise returns a sum: \<open>Inl\<close> carries \<open>str(e)\<close> of the exception, \<open>Inr\<close>
  the value.
\<close>

type_synonym 'a raises = "string + 'a"

text \<open>
  A Python \<open>float\<close> is represented by the rational number it denotes; the
  comparison with 0 is exact.  The arithmetic on floats rounds, and the rounding is
  not defined here: the operations that the engine applies to floats are parameters
  of the model.  \<open>int_div a b\<close> is \<open>a / b\<close> for two integers, \<open>float_mul x k\<close> is
  \<open>x * k\<close> and \<open>float_div x k\<close> is \<open>x / k\<close> for a float and an integer, \<open>float_sum xs\<close>
  is the built-in \<open>sum(xs)\<close> of a list of floats.
\<close>

record float_arith =
  int_div :: "int \<Rightarrow> int \<Rightarrow> rat"
  float_mul :: "rat \<Rightarrow> int \<Rightarrow> rat"
  float_div :: "rat \<Rightarrow> int \<Rightarrow> rat"
  float_sum :: "rat list \<Rightarrow> rat"

text \<open>\<open>str(n)\<close> for an integer, as the f-strings of the rate-limit reasons use it.\<close>

fun digits :: "nat \<Rightarrow> string" where
  "digits n = (if n < 10 then [''0123456789'' ! n]
               else digits (n div 10) @ [''0123456789'' ! (n mod 10)])"

declare digits.simps [simp del]

definition str_int :: "int \<Rightarrow> string" where
  "str_int i = (if i < 0 then CHR ''-'' # digits (nat (- i)) else digits (nat i))"

text \<open>
  A \<open>datetime\<close> value is observed by the engine through \<open>strftime("%Y-%m-%d")\<close>
  (\<open>dt_date\<close>), \<open>.hour\<close> (\<open>dt_hour\<close>) and \<open>isoformat()\<close>; \<open>dt_rest\<close> stands for the
  minutes, seconds and microseconds.  Every \<open>datetime.now()\<close> of the source is an
  explicit argument of the model.
\<close>

record datetime =
  dt_date :: string
  dt_hour :: int
  dt_rest :: string

definition pad2 :: "int \<Rightarrow> string" where
  "pad2 h = (if 0 \<le> h \<and> h < 10 then CHR ''0'' # str_int h else str_int h)"

text \<open>\<open>now.strftime("%Y-%m-%d %H:00")\<close>\<close>

definition hour_key :: "datetime \<Rightarrow> string" where
  "hour_key now = dt_date now @ '' '' @ pad2 (dt_hour now) @ '':00''"

text \<open>
  \<open>random.randint(a, b)\<close>: a value of \<open>[a, b]\<close> chosen by the generator (the \<open>seed\<close>
  argument selects it), \<open>ValueError\<close> when the range is empty.
\<close>

definition randint :: "nat \<Rightarrow> int \<Rightarrow> int \<Rightarrow> int raises" where
  "randint seed a b =
     (if b < a then Inl ''empty range for randrange()''
      else Inr (a + int seed mod (b - a + 1)))"

text \<open>
  The content of a JSON file on disk, as \<open>json.load\<close> sees it.  \<open>Unreadable\<close> is a file
  that exists but does not parse to a JSON object: in particular a file that
  \<open>open(path, 'w')\<close> has truncated and whose JSON text has not been written completely.
  \<open>Holds d\<close> is a file that parses to the dictionary \<open>d\<close>.
\<close>

datatype 'a file_content = NoFile | Unreadable | Holds 'a

text \<open>
  Where a write can be interrupted.  The source writes with
  \<^verbatim>\<open>with open(path, 'w', encoding='utf-8') as f: json.dump(data, f, indent=2)\<close>
  inside \<^verbatim>\<open>try: ... except Exception\<close>: an error before the file is opened
  (\<open>mkdir\<close>, \<open>open\<close>) leaves the file as it was; an error or a crash after
  \<open>open(path, 'w')\<close> has truncated the file and before \<open>json.dump\<close> has finished leaves
  an incomplete text.
\<close>

datatype io_fault = NoFault | FailBeforeOpen | FailAfterOpen

definition write_json :: "io_fault \<Rightarrow> 'a \<Rightarrow> 'a file_content \<Rightarrow> 'a file_content" where
  "write_json fault data disk =
     (case fault of
        NoFault \<Rightarrow> Holds data
      | FailBeforeOpen \<Rightarrow> disk
      | FailAfterOpen \<Rightarrow> Unreadable)"

section \<open>delay\_manager.py\<close>

record RateLimitConfig =
  min_message_delay :: int
  max_message_delay :: int
  messages_per_batch :: "int \<times> int"
  min_batch_delay :: int
  max_batch_delay :: int
  max_messages_per_day :: int
  max_messages_per_hour :: int
  enable_delays :: bool
  enable_daily_limit :: bool
  enable_hourly_limit :: bool

text \<open>The dataclass defaults of \<open>RateLimitConfig\<close>.\<close>

definition RateLimitConfig_default :: RateLimitConfig where
  "RateLimitConfig_default =
     \<lparr>min_message_delay = 20, max_message_delay = 90, messages_per_batch = (10, 20),
      min_batch_delay = 300, max_batch_delay = 900,
      max_messages_per_day = 50, max_messages_per_hour = 15,
      enable_delays = True, enable_daily_limit = True, enable_hourly_limit = True\<rparr>"

record SendingStats =
  total_sent :: int
  sent_today :: int
  sent_this_hour :: int
  last_message_time :: "datetime option"
  last_batch_delay_time :: "datetime option"
  messages_since_batch_delay :: int
  next_batch_delay_at :: int
  current_date :: "string option"
  current_hour :: "int option"
  hourly_counts :: "(string \<times> int) list"
  daily_counts :: "(string \<times> int) list"

definition SendingStats_default :: SendingStats where
  "SendingStats_default =
     \<lparr>total_sent = 0, sent_today = 0, sent_this_hour = 0,
      last_message_time = None, last_batch_delay_time = None,
      messages_since_batch_delay = 0, next_batch_delay_at = 0,
      current_date = None, current_hour = None,
      hourly_counts = [], daily_counts = []\<rparr>"

text \<open>
  The dictionary of the statistics file (\<open>stats_data\<close>).  Each field is one key;
  \<open>None\<close> is a missing key (what \<open>.get(key, default)\<close> tests).  The values have the
  JSON types that \<open>_save_stats\<close> writes: a timestamp is its ISO-8601 text, which
  \<open>datetime.fromisoformat\<close> reads back, or \<open>null\<close>.
\<close>

record stats_data =
  sd_total_sent :: "int option"
  sd_sent_today :: "int option"
  sd_sent_this_hour :: "int option"
  sd_last_message_time :: "datetime option option"
  sd_last_batch_delay_time :: "datetime option option"
  sd_messages_since_batch_delay :: "int option"
  sd_next_batch_delay_at :: "int option"
  sd_current_date :: "string option option"
  sd_current_hour :: "int option option"
  sd_hourly_counts :: "(string \<times> int) list option"
  sd_daily_counts :: "(string \<times> int) list option"

text \<open>
  The state of a \<open>DelayManager\<close>.  \<open>stats_file\<close> tells whether a statistics path is
  configured, \<open>stats_disk\<close> is the content of that file.  \<open>slept\<close> lists the arguments of
  the calls of \<open>_sleep_with_countdown\<close> so far (the only effect of a sleep that the
  model keeps).
\<close>

record DelayManager =
  config :: RateLimitConfig
  stats :: SendingStats
  stats_file :: bool
  stats_disk :: "stats_data file_content"
  slept :: "int list"

definition save_stats :: "io_fault \<Rightarrow> DelayManager \<Rightarrow> DelayManager" where
  "save_stats fault dm =
     (if \<not> stats_file dm then dm
      else dm\<lparr>stats_disk :=
        write_json fault
          \<lparr>sd_total_sent = Some (total_sent (stats dm)),
           sd_sent_today = Some (sent_today (stats dm)),
           sd_sent_this_hour = Some (sent_this_hour (stats dm)),
           sd_last_message_time = Some (last_message_time (stats dm)),
           sd_last_batch_delay_time = Some (last_batch_delay_time (stats dm)),
           sd_messages_since_batch_delay = Some (messages_since_batch_delay (stats dm)),
           sd_next_batch_delay_at = Some (next_batch_delay_at (stats dm)),
           sd_current_date = Some (current_date (stats dm)),
           sd_current_hour = Some (current_hour (stats dm)),
           sd_hourly_counts = Some (hourly_counts (stats dm)),
           sd_daily_counts = Some (daily_counts (stats dm))\<rparr>
          (stats_disk dm)\<rparr>)"

text \<open>
  \<open>d.get(key, default)\<close> and the guarded timestamp read
  \<^verbatim>\<open>if d.get(key): field = datetime.fromisoformat(d[key])\<close>.
\<close>

definition get_or :: "'a option \<Rightarrow> 'a \<Rightarrow> 'a" where
  "get_or v dflt = (case v of None \<Rightarrow> dflt | Some x \<Rightarrow> x)"

definition get_time :: "datetime option option \<Rightarrow> datetime option \<Rightarrow> datetime option" where
  "get_time v cur = (case v of Some (Some d) \<Rightarrow> Some d | _ \<Rightarrow> cur)"

definition load_stats :: "DelayManager \<Rightarrow> DelayManager" where
  "load_stats dm =
     (if \<not> stats_file dm then dm
      else case stats_disk dm of
        NoFile \<Rightarrow> dm
      | Unreadable \<Rightarrow> dm
      | Holds d \<Rightarrow>
          dm\<lparr>stats := (stats dm)
            \<lparr>total_sent := get_or (sd_total_sent d) 0,
             sent_today := get_or (sd_sent_today d) 0,
             sent_this_hour := get_or (sd_sent_this_hour d) 0,
             last_message_time :=
               get_time (sd_last_message_time d) (last_message_time (stats dm)),
             last_batch_delay_time :=
               get_time (sd_last_batch_delay_time d) (last_batch_delay_time (stats dm)),
             messages_since_batch_delay := get_or (sd_messages_since_batch_delay d) 0,
             next_batch_delay_at := get_or (sd_next_batch_delay_at d) 10,
             current_date := get_or (sd_current_date d) None,
             current_hour := get_or (sd_current_hour d) None,
             hourly_counts := get_or (sd_hourly_counts d) [],
             daily_counts := get_or (sd_daily_counts d) []\<rparr>\<rparr>)"

definition reset_batch_threshold :: "nat \<Rightarrow> DelayManager \<Rightarrow> string option \<times> DelayManager" where
  "reset_batch_threshold seed dm =
     (case randint seed (fst (messages_per_batch (config dm)))
                        (snd (messages_per_batch (config dm))) of
        Inl e \<Rightarrow> (Some e, dm)
      | Inr t \<Rightarrow> (None, dm\<lparr>stats := (stats dm)\<lparr>next_batch_delay_at := t\<rparr>\<rparr>))"

text \<open>
  \<open>DelayManager.__init__\<close>: default statistics, the statistics file loaded when it
  exists, then the batch threshold drawn.  The constructor raises when the draw does.
\<close>

definition DelayManager_init ::
  "RateLimitConfig \<Rightarrow> bool \<Rightarrow> stats_data file_content \<Rightarrow> nat \<Rightarrow> DelayManager raises" where
  "DelayManager_init cfg has_file disk seed =
     (let dm0 = \<lparr>config = cfg, stats = SendingStats_default, stats_file = has_file,
                 stats_disk = disk, slept = []\<rparr>;
          dm1 = (if has_file \<and> disk \<noteq> NoFile then load_stats dm0 else dm0)
      in case reset_batch_threshold seed dm1 of
           (Some e, _) \<Rightarrow> Inl e
         | (None, dm2) \<Rightarrow> Inr dm2)"

definition daily_limit_reason :: "RateLimitConfig \<Rightarrow> string" where
  "daily_limit_reason cfg =
     ''Daily limit reached ('' @ str_int (max_messages_per_day cfg) @ '' messages)''"

definition hourly_limit_reason :: "RateLimitConfig \<Rightarrow> string" where
  "hourly_limit_reason cfg =
     ''Hourly limit reached ('' @ str_int (max_messages_per_hour cfg) @ '' messages)''"

text \<open>
  \<open>can_send_message\<close>: the lazy bucket rollover, then the two limits.  It returns the
  pair \<open>(can_send, reason)\<close> and the manager with its updated statistics.
\<close>

definition can_send_message ::
  "datetime \<Rightarrow> DelayManager \<Rightarrow> (bool \<times> string option) \<times> DelayManager" where
  "can_send_message now dm =
     (let today = dt_date now;
          hour = dt_hour now;
          s1 = (if current_date (stats dm) \<noteq> Some today
                then (stats dm)\<lparr>current_date := Some today, sent_today := 0\<rparr>
                else stats dm);
          s2 = (if current_hour s1 \<noteq> Some hour
                then s1\<lparr>current_hour := Some hour, sent_this_hour := 0\<rparr>
                else s1);
          dm2 = dm\<lparr>stats := s2\<rparr>
      in if enable_daily_limit (config dm) \<and> max_messages_per_day (config dm) \<le> sent_today s2
         then ((False, Some (daily_limit_reason (config dm))), dm2)
         else if enable_hourly_limit (config dm)
                 \<and> max_messages_per_hour (config dm) \<le> sent_this_hour s2
         then ((False, Some (hourly_limit_reason (config dm))), dm2)
         else ((True, None), dm2))"

text \<open>\<open>_sleep_with_countdown(seconds)\<close>: only the request is kept.\<close>

definition sleep_with_countdown :: "int \<Rightarrow> DelayManager \<Rightarrow> DelayManager" where
  "sleep_with_countdown seconds dm = dm\<lparr>slept := slept dm @ [seconds]\<rparr>"

text \<open>
  The random draws and the clock reading of one call of \<open>wait_between_messages\<close>.
\<close>

record wait_env =
  delay_seed :: nat
  batch_seed :: nat
  threshold_seed :: nat
  batch_time :: datetime

definition do_batch_delay :: "wait_env \<Rightarrow> DelayManager \<Rightarrow> string option \<times> DelayManager" where
  "do_batch_delay w dm =
     (case randint (batch_seed w) (min_batch_delay (config dm)) (max_batch_delay (config dm)) of
        Inl e \<Rightarrow> (Some e, dm)
      | Inr delay \<Rightarrow>
          (let dm1 = dm\<lparr>stats := (stats dm)\<lparr>last_batch_delay_time := Some (batch_time w)\<rparr>\<rparr>;
               dm2 = sleep_with_countdown delay dm1;
               dm3 = dm2\<lparr>stats := (stats dm2)\<lparr>messages_since_batch_delay := 0\<rparr>\<rparr>
           in reset_batch_threshold (threshold_seed w) dm3))"

text \<open>
  \<open>wait_between_messages(force)\<close>.  The result is the exception that escapes, if
  any, and the manager.
\<close>

definition wait_between_messages ::
  "bool \<Rightarrow> wait_env \<Rightarrow> DelayManager \<Rightarrow> string option \<times> DelayManager" where
  "wait_between_messages force w dm =
     (if \<not> enable_delays (config dm) \<and> \<not> force then (None, dm)
      else if next_batch_delay_at (stats dm) \<le> messages_since_batch_delay (stats dm)
      then do_batch_delay w dm
      else case randint (delay_seed w) (min_message_delay (config dm))
                        (max_message_delay (config dm)) of
             Inl e \<Rightarrow> (Some e, dm)
           | Inr delay \<Rightarrow> (None, sleep_with_countdown delay dm))"

text \<open>
  \<open>record_message_sent\<close>: the four counters, the time of the send, the two
  histories, then the statistics file.
\<close>

definition record_message_sent :: "datetime \<Rightarrow> io_fault \<Rightarrow> DelayManager \<Rightarrow> DelayManager" where
  "record_message_sent now fault dm =
     (let s = stats dm;
          s1 = s\<lparr>total_sent := total_sent s + 1,
                 sent_today := sent_today s + 1,
                 sent_this_hour := sent_this_hour s + 1,
                 messages_since_batch_delay := messages_since_batch_delay s + 1,
                 last_message_time := Some now\<rparr>;
          s2 = s1\<lparr>hourly_counts := AList.update (hour_key now) (sent_this_hour s1) (hourly_counts s1)\<rparr>;
          s3 = s2\<lparr>daily_counts := AList.update (dt_date now) (sent_today s2) (daily_counts s2)\<rparr>
      in save_stats fault (dm\<lparr>stats := s3\<rparr>))"

text \<open>
  \<open>get_statistics\<close>: the dictionary is built from the statistics and completed by a
  call of \<open>can_send_message\<close>, whose rollover writes the statistics.  The result is
  the pair \<open>(can_send_more, limit_reason)\<close> of the dictionary and the manager.
  \<open>print_statistics\<close> prints what \<open>get_statistics\<close> returns.
\<close>

definition get_statistics ::
  "datetime \<Rightarrow> DelayManager \<Rightarrow> (bool \<times> string option) \<times> DelayManager" where
  "get_statistics now dm = can_send_message now dm"

section \<open>models/business.py and the message type\<close>

record Business =
  business_name :: string
  phone :: string
  description :: "string option"
  website :: "string option"
  google_maps_link :: "string option"

text \<open>
  The ASCII characters that \<open>str.strip()\<close> removes (a string is a list of bytes here,
  so whitespace beyond ASCII is not recognised).
\<close>

definition py_space :: "char \<Rightarrow> bool" where
  "py_space c = (let n = (of_char c :: nat) in (9 \<le> n \<and> n \<le> 13) \<or> (28 \<le> n \<and> n \<le> 32))"

text \<open>\<open>bool(self.website and self.website.strip())\<close>\<close>

definition has_website :: "Business \<Rightarrow> bool" where
  "has_website b = (case website b of None \<Rightarrow> False | Some w \<Rightarrow> \<not> list_all py_space w)"

definition detect_message_type :: "Business \<Rightarrow> string" where
  "detect_message_type b = (if has_website b then ''enhancement'' else ''creation'')"

section \<open>analytics\_tracker.py\<close>

text \<open>
  The metrics of the running campaign and the per-attempt records.  The two
  histograms of the tracker (\<open>hourly_stats\<close>, \<open>error_categories\<close>) are only written
  by the operations below and read by none of them; they are left out.
  \<open>cm_total_businesses\<close>, \<open>cm_start_time\<close> and \<open>cm_end_time\<close> are the fields
  \<open>total_businesses\<close>, \<open>start_time\<close> and \<open>end_time\<close> of \<open>CampaignMetrics\<close>; the fields
  \<open>ba_...\<close> are those of \<open>BusinessAnalytics\<close>.
\<close>

record CampaignMetrics =
  cm_total_businesses :: int
  messages_sent :: int
  messages_failed :: int
  messages_skipped :: int
  creation_messages :: int
  enhancement_messages :: int
  cm_start_time :: "datetime option"
  cm_end_time :: "datetime option"
  total_duration :: rat
  average_message_time :: rat
  success_rate :: rat
  rate_limit_hits :: int
  batch_delays_triggered :: int

definition CampaignMetrics_default :: CampaignMetrics where
  "CampaignMetrics_default =
     \<lparr>cm_total_businesses = 0, messages_sent = 0, messages_failed = 0, messages_skipped = 0,
      creation_messages = 0, enhancement_messages = 0,
      cm_start_time = None, cm_end_time = None,
      total_duration = 0, average_message_time = 0, success_rate = 0,
      rate_limit_hits = 0, batch_delays_triggered = 0\<rparr>"

record BusinessAnalytics =
  ba_business_name :: string
  ba_phone :: string
  ba_has_website :: bool
  ba_message_type :: string
  ba_status :: string
  ba_timestamp :: datetime
  ba_duration :: rat
  ba_retry_count :: int
  ba_error :: "string option"

record AnalyticsTracker =
  current_campaign :: CampaignMetrics
  business_analytics :: "BusinessAnalytics list"

definition AnalyticsTracker_init :: AnalyticsTracker where
  "AnalyticsTracker_init =
     \<lparr>current_campaign = CampaignMetrics_default, business_analytics = []\<rparr>"

definition start_campaign :: "int \<Rightarrow> datetime \<Rightarrow> AnalyticsTracker \<Rightarrow> AnalyticsTracker" where
  "start_campaign total_n now t =
     t\<lparr>current_campaign :=
         CampaignMetrics_default\<lparr>cm_total_businesses := total_n, cm_start_time := Some now\<rparr>\<rparr>"

definition track_message_sent ::
  "string \<Rightarrow> string \<Rightarrow> string \<Rightarrow> bool \<Rightarrow> rat \<Rightarrow> int \<Rightarrow> datetime
     \<Rightarrow> AnalyticsTracker \<Rightarrow> AnalyticsTracker" where
  "track_message_sent name ph message_type has_web duration retry_count now t =
     (let c = current_campaign t;
          c1 = c\<lparr>messages_sent := messages_sent c + 1\<rparr>;
          c2 = (if message_type = ''creation''
                then c1\<lparr>creation_messages := creation_messages c1 + 1\<rparr>
                else c1\<lparr>enhancement_messages := enhancement_messages c1 + 1\<rparr>)
      in t\<lparr>current_campaign := c2,
           business_analytics := business_analytics t @
             [\<lparr>ba_business_name = name, ba_phone = ph, ba_has_website = has_web,
               ba_message_type = message_type, ba_status = ''success'', ba_timestamp = now,
               ba_duration = duration, ba_retry_count = retry_count, ba_error = None\<rparr>]\<rparr>)"

definition track_message_failed ::
  "string \<Rightarrow> string \<Rightarrow> string \<Rightarrow> bool \<Rightarrow> string \<Rightarrow> rat \<Rightarrow> int \<Rightarrow> datetime
     \<Rightarrow> AnalyticsTracker \<Rightarrow> AnalyticsTracker" where
  "track_message_failed name ph message_type has_web err duration retry_count now t =
     (let c = current_campaign t
      in t\<lparr>current_campaign := c\<lparr>messages_failed := messages_failed c + 1\<rparr>,
           business_analytics := business_analytics t @
             [\<lparr>ba_business_name = name, ba_phone = ph, ba_has_website = has_web,
               ba_message_type = message_type, ba_status = ''failed'', ba_timestamp = now,
               ba_duration = duration, ba_retry_count = retry_count, ba_error = Some err\<rparr>]\<rparr>)"

definition track_message_skipped ::
  "string \<Rightarrow> string \<Rightarrow> string \<Rightarrow> datetime \<Rightarrow> AnalyticsTracker \<Rightarrow> AnalyticsTracker" where
  "track_message_skipped name ph reason now t =
     (let c = current_campaign t
      in t\<lparr>current_campaign := c\<lparr>messages_skipped := messages_skipped c + 1\<rparr>,
           business_analytics := business_analytics t @
             [\<lparr>ba_business_name = name, ba_phone = ph, ba_has_website = False,
               ba_message_type = ''unknown'', ba_status = ''skipped'', ba_timestamp = now,
               ba_duration = 0, ba_retry_count = 0, ba_error = Some reason\<rparr>]\<rparr>)"

text \<open>
  The durations that enter the mean of \<open>end_campaign\<close>:
  \<^verbatim>\<open>[ba.duration for ba in self.business_analytics if ba.status == 'success' and ba.duration > 0]\<close>
\<close>

definition successful_timings :: "AnalyticsTracker \<Rightarrow> rat list" where
  "successful_timings t =
     map ba_duration
       (filter (\<lambda>ba. ba_status ba = ''success'' \<and> 0 < ba_duration ba) (business_analytics t))"

text \<open>
  \<open>end_campaign\<close>.  \<open>now\<close> is the end time and \<open>elapsed\<close> the value of
  \<open>(end_time - start_time).total_seconds()\<close>.  The rate is
  \<^verbatim>\<open>(messages_sent / total_attempted) * 100\<close> and the average
  \<^verbatim>\<open>sum(successful_timings) / len(successful_timings)\<close>, in the float arithmetic \<open>fa\<close>.
\<close>

definition end_campaign ::
  "float_arith \<Rightarrow> datetime \<Rightarrow> rat \<Rightarrow> AnalyticsTracker \<Rightarrow> AnalyticsTracker" where
  "end_campaign fa now elapsed t =
     (let c = (current_campaign t)\<lparr>cm_end_time := Some now\<rparr>;
          c1 = (if cm_start_time c \<noteq> None then c\<lparr>total_duration := elapsed\<rparr> else c);
          total_attempted = messages_sent c1 + messages_failed c1;
          c2 = (if 0 < total_attempted
                then c1\<lparr>success_rate :=
                       float_mul fa (int_div fa (messages_sent c1) total_attempted) 100\<rparr>
                else c1);
          ds = successful_timings t;
          c3 = (if ds \<noteq> []
                then c2\<lparr>average_message_time :=
                       float_div fa (float_sum fa ds) (int (length ds))\<rparr>
                else c2)
      in t\<lparr>current_campaign := c3\<rparr>)"

text \<open>
  One call of a tracking method, and a sequence of such calls on a tracker.
\<close>

datatype track_event =
    TrackSent string string string bool rat int datetime
  | TrackFailed string string string bool string rat int datetime
  | TrackSkipped string string string datetime

fun track :: "track_event \<Rightarrow> AnalyticsTracker \<Rightarrow> AnalyticsTracker" where
  "track (TrackSent name ph ty w d r now) t = track_message_sent name ph ty w d r now t"
| "track (TrackFailed name ph ty w err d r now) t = track_message_failed name ph ty w err d r now t"
| "track (TrackSkipped name ph reason now) t = track_message_skipped name ph reason now t"

fun track_all :: "track_event list \<Rightarrow> AnalyticsTracker \<Rightarrow> AnalyticsTracker" where
  "track_all [] t = t"
| "track_all (e # es) t = track_all es (track e t)"

section \<open>campaign\_manager.py\<close>

text \<open>
  \<open>mr_...\<close> are the fields of \<open>MessageResult\<close>; \<open>mr_timestamp\<close> holds the instant whose
  \<open>isoformat()\<close> the source stores.
\<close>

record MessageResult =
  mr_business_name :: string
  mr_phone :: string
  mr_message_type :: string
  mr_status :: string
  mr_error :: "string option"
  mr_timestamp :: datetime
  mr_message_preview :: "string option"

record CampaignProgress =
  total_businesses :: int
  processed :: int
  sent :: int
  failed :: int
  skipped :: int
  start_time :: "datetime option"
  end_time :: "datetime option"
  last_processed_index :: int
  results :: "MessageResult list"

definition CampaignProgress_default :: CampaignProgress where
  "CampaignProgress_default =
     \<lparr>total_businesses = 0, processed = 0, sent = 0, failed = 0, skipped = 0,
      start_time = None, end_time = None, last_processed_index = - 1, results = []\<rparr>"

text \<open>The dictionary of the progress file (\<open>progress_data\<close>); \<open>None\<close> is a missing key.\<close>

record progress_data =
  pd_last_processed_index :: "int option"
  pd_processed :: "int option"
  pd_sent :: "int option"
  pd_failed :: "int option"
  pd_skipped :: "int option"
  pd_start_time :: "datetime option option"

text \<open>
  The state of a \<open>CampaignManager\<close> that the engine reads and writes.
  \<open>progress_file\<close> tells whether a progress path is configured, \<open>progress_disk\<close> is the
  content of that file.
\<close>

record CampaignManager =
  dry_run :: bool
  delay_manager :: DelayManager
  analytics_tracker :: AnalyticsTracker
  progress :: CampaignProgress
  progress_file :: bool
  progress_disk :: "progress_data file_content"

definition save_progress :: "io_fault \<Rightarrow> CampaignManager \<Rightarrow> CampaignManager" where
  "save_progress fault m =
     (if \<not> progress_file m then m
      else m\<lparr>progress_disk :=
        write_json fault
          \<lparr>pd_last_processed_index = Some (last_processed_index (progress m)),
           pd_processed = Some (processed (progress m)),
           pd_sent = Some (sent (progress m)),
           pd_failed = Some (failed (progress m)),
           pd_skipped = Some (skipped (progress m)),
           pd_start_time = Some (start_time (progress m))\<rparr>
          (progress_disk m)\<rparr>)"

definition load_progress :: "CampaignManager \<Rightarrow> CampaignManager" where
  "load_progress m =
     (if \<not> progress_file m then m
      else case progress_disk m of
        NoFile \<Rightarrow> m
      | Unreadable \<Rightarrow> m
      | Holds d \<Rightarrow>
          m\<lparr>progress := (progress m)
            \<lparr>last_processed_index := get_or (pd_last_processed_index d) (- 1),
             processed := get_or (pd_processed d) 0,
             sent := get_or (pd_sent d) 0,
             failed := get_or (pd_failed d) 0,
             skipped := get_or (pd_skipped d) 0,
             start_time := get_time (pd_start_time d) (start_time (progress m))\<rparr>\<rparr>)"

text \<open>
  \<open>CampaignManager.__init__\<close>: a fresh progress and tracker, then the progress file
  loaded when it exists.
\<close>

definition CampaignManager_init ::
  "bool \<Rightarrow> DelayManager \<Rightarrow> bool \<Rightarrow> progress_data file_content \<Rightarrow> CampaignManager" where
  "CampaignManager_init dry dm has_file disk =
     (let m0 = \<lparr>dry_run = dry, delay_manager = dm, analytics_tracker = AnalyticsTracker_init,
                 progress = CampaignProgress_default, progress_file = has_file,
                 progress_disk = disk\<rparr>
      in if has_file \<and> disk \<noteq> NoFile then load_progress m0 else m0)"

text \<open>
  \<open>_load_businesses\<close>; \<open>businesses\<close> is the list that \<open>excel_handler.get_businesses()\<close>
  returns.
\<close>

definition load_businesses ::
  "Business list \<Rightarrow> CampaignManager \<Rightarrow> Business list \<times> CampaignManager" where
  "load_businesses businesses m =
     (let bs = (if 0 \<le> last_processed_index (progress m)
                then drop (nat (last_processed_index (progress m) + 1)) businesses
                else businesses)
      in (bs, m\<lparr>progress := (progress m)\<lparr>total_businesses := int (length bs)\<rparr>\<rparr>))"

text \<open>
  What the surroundings supply during one iteration of the sending loop: the clock
  readings, the outcome of \<open>message_composer.compose_message\<close>, the outcome of
  \<open>whatsapp_controller.send_message\<close>, the faults of the two file writes and the draws
  of the wait.  \<open>send_message\<close> is declared \<^verbatim>\<open>-> Tuple[bool, str]\<close> and returns
  \<open>(True, "")\<close> or \<open>(False, error_message)\<close>.
\<close>

record step_env =
  check_time :: datetime
  compose :: "string raises"
  transport :: "(bool \<times> string) raises"
  sent_time :: datetime
  stats_fault :: io_fault
  result_time :: datetime
  track_time :: datetime
  progress_fault :: io_fault
  wait :: wait_env
  handler_result_time :: datetime
  handler_track_time :: datetime

text \<open>
  The dictionary that \<open>_send_single_message\<close> returns; \<open>sr_error\<close> and \<open>sr_message\<close> are
  \<open>result.get('error')\<close> and \<open>result.get('message')\<close>.
\<close>

record send_result =
  sr_status :: string
  sr_error :: "string option"
  sr_message :: "string option"

text \<open>
  The truth value of a 2-tuple in \<^verbatim>\<open>if success:\<close> : a non-empty tuple is true,
  whatever its components.
\<close>

definition tuple_truthy :: "bool \<times> string \<Rightarrow> bool" where
  "tuple_truthy t = True"

definition send_single_message ::
  "step_env \<Rightarrow> Business \<Rightarrow> CampaignManager \<Rightarrow> send_result \<times> CampaignManager" where
  "send_single_message e b m =
     (case compose e of
        Inl err \<Rightarrow> (\<lparr>sr_status = ''failed'', sr_error = Some err, sr_message = None\<rparr>, m)
      | Inr message \<Rightarrow>
          if dry_run m
          then (\<lparr>sr_status = ''success'', sr_error = None, sr_message = Some message\<rparr>, m)
          else case transport e of
                 Inl err \<Rightarrow>
                   (\<lparr>sr_status = ''failed'', sr_error = Some err, sr_message = None\<rparr>, m)
               | Inr success \<Rightarrow>
                   if tuple_truthy success
                   then (\<lparr>sr_status = ''success'', sr_error = None, sr_message = Some message\<rparr>,
                         m\<lparr>delay_manager :=
                             record_message_sent (sent_time e) (stats_fault e) (delay_manager m)\<rparr>)
                   else (\<lparr>sr_status = ''failed'', sr_error = Some ''Send operation failed'',
                          sr_message = Some message\<rparr>, m))"

text \<open>\<open>x or default\<close> for an optional string.\<close>

definition str_or :: "string option \<Rightarrow> string \<Rightarrow> string" where
  "str_or x dflt = (case x of None \<Rightarrow> dflt | Some s \<Rightarrow> if s = [] then dflt else s)"

text \<open>\<open>message[:80] if message else None\<close>\<close>

definition message_preview :: "string option \<Rightarrow> string option" where
  "message_preview message =
     (case message of None \<Rightarrow> None | Some s \<Rightarrow> if s = [] then None else Some (take 80 s))"

text \<open>
  \<open>_record_result\<close>.  \<open>ts\<close> is the clock reading of the \<open>MessageResult\<close>, \<open>track_ts\<close>
  the one of the tracker.
\<close>

definition record_result ::
  "datetime \<Rightarrow> datetime \<Rightarrow> Business \<Rightarrow> string \<Rightarrow> string option \<Rightarrow> string option
     \<Rightarrow> rat \<Rightarrow> int \<Rightarrow> CampaignManager \<Rightarrow> CampaignManager" where
  "record_result ts track_ts b status err message duration retry_count m =
     (let message_type = detect_message_type b;
          result = \<lparr>mr_business_name = business_name b, mr_phone = phone b,
                    mr_message_type = message_type, mr_status = status, mr_error = err,
                    mr_timestamp = ts, mr_message_preview = message_preview message\<rparr>;
          p1 = (progress m)\<lparr>results := results (progress m) @ [result]\<rparr>
      in if status = ''success''
         then m\<lparr>progress := p1\<lparr>sent := sent p1 + 1\<rparr>,
                analytics_tracker :=
                  track_message_sent (business_name b) (phone b) message_type (has_website b)
                    duration retry_count track_ts (analytics_tracker m)\<rparr>
         else if status = ''failed''
         then m\<lparr>progress := p1\<lparr>failed := failed p1 + 1\<rparr>,
                analytics_tracker :=
                  track_message_failed (business_name b) (phone b) message_type (has_website b)
                    (str_or err ''Unknown error'') duration retry_count track_ts
                    (analytics_tracker m)\<rparr>
         else if status = ''skipped''
         then m\<lparr>progress := p1\<lparr>skipped := skipped p1 + 1\<rparr>,
                analytics_tracker :=
                  track_message_skipped (business_name b) (phone b)
                    (str_or err ''Unknown reason'') track_ts (analytics_tracker m)\<rparr>
         else m\<lparr>progress := p1\<rparr>)"

text \<open>
  One iteration of the \<open>for i, business in enumerate(businesses)\<close> loop of
  \<open>_send_messages\<close>; \<open>n\<close> is \<open>len(businesses)\<close> and \<open>e\<close> the surroundings of the
  iteration.  The result says whether the loop goes on (\<open>Next\<close>) or is left by
  \<open>break\<close>.  A refused rate-limit check records the current business as skipped and
  breaks.  An exception of \<open>wait_between_messages\<close> reaches the handler
  \<^verbatim>\<open>except Exception\<close>, which records a failed result for the business and goes on
  with the next one.  \<open>KeyboardInterrupt\<close> is not modelled.
\<close>

datatype loop_exit = Next | Break

definition loop_body ::
  "step_env \<Rightarrow> nat \<Rightarrow> nat \<Rightarrow> Business \<Rightarrow> CampaignManager \<Rightarrow> loop_exit \<times> CampaignManager" where
  "loop_body e n i b m =
     (let (verdict, dm1) = can_send_message (check_time e) (delay_manager m);
          m1 = m\<lparr>delay_manager := dm1\<rparr>
      in if \<not> fst verdict
         then (Break,
               record_result (result_time e) (track_time e) b ''skipped'' (snd verdict) None 0 0 m1)
         else
           (let (result, m2) = send_single_message e b m1;
                m3 = record_result (result_time e) (track_time e) b
                       (sr_status result) (sr_error result) (sr_message result) 0 0 m2;
                m4 = m3\<lparr>progress := (progress m3)
                       \<lparr>processed := processed (progress m3) + 1,
                        last_processed_index := int i\<rparr>\<rparr>;
                m5 = (if processed (progress m4) mod 5 = 0
                      then save_progress (progress_fault e) m4 else m4)
            in if int i < int n - 1 \<and> sr_status result = ''success''
               then (case wait_between_messages False (wait e) (delay_manager m5) of
                       (None, dm6) \<Rightarrow> (Next, m5\<lparr>delay_manager := dm6\<rparr>)
                     | (Some exc, dm6) \<Rightarrow>
                         (Next,
                          record_result (handler_result_time e) (handler_track_time e) b
                            ''failed'' (Some exc) None 0 0 (m5\<lparr>delay_manager := dm6\<rparr>)))
               else (Next, m5)))"

fun send_loop ::
  "(nat \<Rightarrow> step_env) \<Rightarrow> nat \<Rightarrow> nat \<Rightarrow> Business list \<Rightarrow> CampaignManager \<Rightarrow> CampaignManager" where
  "send_loop env n i [] m = m"
| "send_loop env n i (b # bs) m =
     (case loop_body (env i) n i b m of
        (Break, m') \<Rightarrow> m'
      | (Next, m') \<Rightarrow> send_loop env n (Suc i) bs m')"

text \<open>\<open>_send_messages\<close>: the start time, the loop, the end time, the final save.\<close>

definition send_messages ::
  "datetime \<Rightarrow> (nat \<Rightarrow> step_env) \<Rightarrow> datetime \<Rightarrow> io_fault \<Rightarrow> Business list
     \<Rightarrow> CampaignManager \<Rightarrow> CampaignManager" where
  "send_messages t_start env t_end final_fault businesses m =
     (let m1 = m\<lparr>progress := (progress m)\<lparr>start_time := Some t_start\<rparr>\<rparr>;
          m2 = send_loop env (length businesses) 0 businesses m1;
          m3 = m2\<lparr>progress := (progress m2)\<lparr>end_time := Some t_end\<rparr>\<rparr>
      in save_progress final_fault m3)"

text \<open>
  The success rate that \<open>_generate_report\<close> logs, when it logs one
  (\<^verbatim>\<open>if self.progress.processed > 0\<close>): \<^verbatim>\<open>(sent / processed) * 100\<close>.
\<close>

definition report_success_rate :: "float_arith \<Rightarrow> CampaignProgress \<Rightarrow> rat option" where
  "report_success_rate fa p =
     (if 0 < processed p then Some (float_mul fa (int_div fa (sent p) (processed p)) 100)
      else None)"

text \<open>
  What \<open>_generate_report\<close> does to the manager.  It logs and prints, and it reads the
  statistics of the delay manager up to three times: in \<open>print_statistics\<close>, in
  \<open>_save_detailed_report\<close> and in \<open>_export_csv_reports\<close>.  The last two reads stand
  inside \<^verbatim>\<open>try: ... except Exception\<close> after file operations; \<open>None\<close> says that the
  export failed before it read the statistics.  The report files themselves are not
  part of the state.
\<close>

record report_env =
  print_check :: datetime
  detail_check :: "datetime option"
  csv_check :: "datetime option"

definition read_statistics :: "datetime option \<Rightarrow> CampaignManager \<Rightarrow> CampaignManager" where
  "read_statistics t m =
     (case t of
        None \<Rightarrow> m
      | Some now \<Rightarrow> m\<lparr>delay_manager := snd (get_statistics now (delay_manager m))\<rparr>)"

definition generate_report :: "report_env \<Rightarrow> CampaignManager \<Rightarrow> CampaignManager" where
  "generate_report rep m =
     read_statistics (csv_check rep)
       (read_statistics (detail_check rep)
          (read_statistics (Some (print_check rep)) m))"

text \<open>
  \<open>run_campaign\<close>.  \<open>excel\<close> is the list of valid businesses of the spreadsheet,
  \<open>whatsapp_ok\<close> the result of \<open>_initialize_whatsapp\<close>, \<open>arith\<close> the float arithmetic.
\<close>

record run_env =
  excel :: "Business list"
  campaign_start :: datetime
  whatsapp_ok :: bool
  loop_start :: datetime
  steps :: "nat \<Rightarrow> step_env"
  loop_end :: datetime
  final_fault :: io_fault
  campaign_end :: datetime
  elapsed_seconds :: rat
  arith :: float_arith
  report :: report_env

definition run_campaign :: "run_env \<Rightarrow> CampaignManager \<Rightarrow> bool \<times> CampaignManager" where
  "run_campaign r m =
     (let (businesses, m1) = load_businesses (excel r) m
      in if businesses = [] then (False, m1)
         else
           (let m2 = m1\<lparr>analytics_tracker :=
                       start_campaign (int (length businesses)) (campaign_start r)
                         (analytics_tracker m1)\<rparr>
            in if \<not> dry_run m2 \<and> \<not> whatsapp_ok r then (False, m2)
               else
                 (let m3 = send_messages (loop_start r) (steps r) (loop_end r) (final_fault r)
                             businesses m2;
                      m4 = m3\<lparr>analytics_tracker :=
                              end_campaign (arith r) (campaign_end r) (elapsed_seconds r)
                                (analytics_tracker m3)\<rparr>;
                      m5 = generate_report (report r) m4
                  in (True, m5))))"

section \<open>Notions used to state the properties\<close>

text \<open>
  A call of \<open>_record_result\<close> with its arguments, and a sequence of such calls on a
  manager.
\<close>

record result_call =
  rc_result_time :: datetime
  rc_track_time :: datetime
  rc_business :: Business
  rc_status :: string
  rc_error :: "string option"
  rc_message :: "string option"
  rc_duration :: rat
  rc_retry_count :: int

definition record_call :: "result_call \<Rightarrow> CampaignManager \<Rightarrow> CampaignManager" where
  "record_call c m =
     record_result (rc_result_time c) (rc_track_time c) (rc_business c) (rc_status c)
       (rc_error c) (rc_message c) (rc_duration c) (rc_retry_count c) m"

fun record_results :: "result_call list \<Rightarrow> CampaignManager \<Rightarrow> CampaignManager" where
  "record_results [] m = m"
| "record_results (c # cs) m = record_results cs (record_call c m)"

text \<open>
  The \<open>MessageResult\<close> that a call appends, and the number of calls of a sequence
  that carry a given status.
\<close>

definition call_result :: "result_call \<Rightarrow> MessageResult" where
  "call_result c =
     \<lparr>mr_business_name = business_name (rc_business c), mr_phone = phone (rc_business c),
      mr_message_type = detect_message_type (rc_business c), mr_status = rc_status c,
      mr_error = rc_error c, mr_timestamp = rc_result_time c,
      mr_message_preview = message_preview (rc_message c)\<rparr>"

definition status_count :: "string \<Rightarrow> result_call list \<Rightarrow> int" where
  "status_count s cs = int (length (filter (\<lambda>c. rc_status c = s) cs))"

text \<open>\<open>progress.sent + progress.failed + progress.skipped\<close>\<close>

definition outcome_total :: "CampaignProgress \<Rightarrow> int" where
  "outcome_total p = sent p + failed p + skipped p"

text \<open>
  The recipient a result belongs to, the recipient of a business, and the number of
  results with status success.
\<close>

definition result_ident :: "MessageResult \<Rightarrow> string \<times> string" where
  "result_ident r = (mr_business_name r, mr_phone r)"

definition business_ident :: "Business \<Rightarrow> string \<times> string" where
  "business_ident b = (business_name b, phone b)"

definition successes :: "MessageResult list \<Rightarrow> int" where
  "successes rs = int (length (filter (\<lambda>r. mr_status r = ''success'') rs))"

text \<open>
  \<open>in_order ids bs\<close>: the recipients \<open>ids\<close> are recipients of \<open>bs\<close> and follow the
  order of \<open>bs\<close> (a business may have no entry, or several in a row).
\<close>

fun in_order :: "(string \<times> string) list \<Rightarrow> Business list \<Rightarrow> bool" where
  "in_order [] bs = True"
| "in_order (x # xs) [] = False"
| "in_order (x # xs) (b # bs) =
     ((x = business_ident b \<and> in_order xs (b # bs)) \<or> in_order (x # xs) bs)"

text \<open>
  \<open>counters_kept s s'\<close>: from \<open>s\<close> to \<open>s'\<close> no counter of the delay manager has been
  incremented; \<open>total_sent\<close> is the same, each of the other three is the same or has
  been reset to 0.
\<close>

definition counters_kept :: "SendingStats \<Rightarrow> SendingStats \<Rightarrow> bool" where
  "counters_kept s s' \<longleftrightarrow>
     total_sent s' = total_sent s
     \<and> (sent_today s' = sent_today s \<or> sent_today s' = 0)
     \<and> (sent_this_hour s' = sent_this_hour s \<or> sent_this_hour s' = 0)
     \<and> (messages_since_batch_delay s' = messages_since_batch_delay s
          \<or> messages_since_batch_delay s' = 0)"

text \<open>
  A resumed run: the part of \<open>run_campaign\<close> from \<open>_load_businesses\<close> to the end of
  \<open>_send_messages\<close>, on a manager whose progress has been restored.
\<close>

definition resume_run ::
  "datetime \<Rightarrow> (nat \<Rightarrow> step_env) \<Rightarrow> datetime \<Rightarrow> io_fault \<Rightarrow> Business list
     \<Rightarrow> CampaignManager \<Rightarrow> CampaignManager" where
  "resume_run t_start env t_end fault businesses m =
     (let (rest, m1) = load_businesses businesses m
      in send_messages t_start env t_end fault rest m1)"

text \<open>
  The manager with which \<open>run_campaign\<close> enters \<open>_send_messages\<close>: the businesses are
  loaded and the tracker has started the campaign.
\<close>

definition campaign_entry :: "run_env \<Rightarrow> CampaignManager \<Rightarrow> CampaignManager" where
  "campaign_entry r m =
     (let (businesses, m1) = load_businesses (excel r) m
      in m1\<lparr>analytics_tracker :=
             start_campaign (int (length businesses)) (campaign_start r)
               (analytics_tracker m1)\<rparr>)"

text \<open>
  A later process that opens the files a manager has written: a new
  \<open>CampaignManager\<close> on the progress file, and the statistics a new \<open>DelayManager\<close>
  holds after \<open>_load_stats\<close> (before the constructor draws the batch threshold).
\<close>

definition reopen_progress :: "bool \<Rightarrow> DelayManager \<Rightarrow> CampaignManager \<Rightarrow> CampaignManager" where
  "reopen_progress dry dm m = CampaignManager_init dry dm (progress_file m) (progress_disk m)"

definition reopen_stats :: "DelayManager \<Rightarrow> DelayManager" where
  "reopen_stats dm =
     (let dm0 = \<lparr>config = config dm, stats = SendingStats_default, stats_file = stats_file dm,
                 stats_disk = stats_disk dm, slept = []\<rparr>
      in if stats_file dm \<and> stats_disk dm \<noteq> NoFile then load_stats dm0 else dm0)"

text \<open>
  The tracked history of a campaign: which calls were successes, which failures, and
  the duration passed with each call (a skip has none).
\<close>

fun is_sent :: "track_event \<Rightarrow> bool" where
  "is_sent (TrackSent name ph ty w d r now) = True"
| "is_sent _ = False"

fun is_failed :: "track_event \<Rightarrow> bool" where
  "is_failed (TrackFailed name ph ty w err d r now) = True"
| "is_failed _ = False"

fun event_duration :: "track_event \<Rightarrow> rat" where
  "event_duration (TrackSent name ph ty w d r now) = d"
| "event_duration (TrackFailed name ph ty w err d r now) = d"
| "event_duration (TrackSkipped name ph reason now) = 0"

definition sent_count :: "track_event list \<Rightarrow> int" where
  "sent_count es = int (length (filter is_sent es))"

definition failed_count :: "track_event list \<Rightarrow> int" where
  "failed_count es = int (length (filter is_failed es))"

definition sent_durations :: "track_event list \<Rightarrow> rat list" where
  "sent_durations es = map event_duration (filter (\<lambda>e. is_sent e \<and> 0 < event_duration e) es)"

text \<open>
  The durations the specification's sentence takes the mean of: those of all attempts
  with a strictly positive duration.
\<close>

definition attempt_durations :: "track_event list \<Rightarrow> rat list" where
  "attempt_durations es = map event_duration (filter (\<lambda>e. 0 < event_duration e) es)"

text \<open>
  The mean of a list in exact arithmetic (0 for the empty list).
\<close>

definition mean :: "rat list \<Rightarrow> rat" where
  "mean ds = (if ds = [] then 0 else sum_list ds / of_nat (length ds))"

text \<open>
  The float arithmetic without rounding.  It is used at concrete inputs whose results
  are binary floating-point numbers (1/2, 50, 3), where Python computes the same
  values.
\<close>

definition exact_arith :: float_arith where
  "exact_arith =
     \<lparr>int_div = (\<lambda>a b. of_int a / of_int b), float_mul = (\<lambda>x k. x * of_int k),
      float_div = (\<lambda>x k. x / of_int k), float_sum = sum_list\<rparr>"

text \<open>The metrics of a campaign that is started, tracked and ended.\<close>

definition tracked_campaign ::
  "float_arith \<Rightarrow> int \<Rightarrow> datetime \<Rightarrow> track_event list \<Rightarrow> datetime \<Rightarrow> rat
     \<Rightarrow> CampaignMetrics" where
  "tracked_campaign fa total_n t_start es t_end elapsed =
     current_campaign
       (end_campaign fa t_end elapsed
          (track_all es (start_campaign total_n t_start AnalyticsTracker_init)))"

text \<open>
  A run under the hourly cap alone.  \<open>hourly_capped cfg H\<close>: the hourly limit is
  enabled with cap \<open>H\<close>, delays are disabled and the daily limit, when enabled, lies
  above \<open>H\<close>.  \<open>sends_succeed env now\<close>: in every iteration the message is composed,
  \<open>send_message\<close> returns, and the rate-limit check reads the day and hour of \<open>now\<close>.
  \<open>cap_state cfg now k m\<close>: a live manager with configuration \<open>cfg\<close> that has counted
  \<open>k\<close> sends in the hour and day of \<open>now\<close>.
\<close>

definition hourly_capped :: "RateLimitConfig \<Rightarrow> nat \<Rightarrow> bool" where
  "hourly_capped cfg H \<longleftrightarrow>
     enable_hourly_limit cfg \<and> \<not> enable_delays cfg \<and> max_messages_per_hour cfg = int H
     \<and> (enable_daily_limit cfg \<longrightarrow> int H < max_messages_per_day cfg)"

definition sends_succeed :: "(nat \<Rightarrow> step_env) \<Rightarrow> datetime \<Rightarrow> bool" where
  "sends_succeed env now \<longleftrightarrow>
     (\<forall>j. \<not> isl (compose (env j)) \<and> \<not> isl (transport (env j))
          \<and> dt_date (check_time (env j)) = dt_date now
          \<and> dt_hour (check_time (env j)) = dt_hour now)"

definition cap_state :: "RateLimitConfig \<Rightarrow> datetime \<Rightarrow> nat \<Rightarrow> CampaignManager \<Rightarrow> bool" where
  "cap_state cfg now k m \<longleftrightarrow>
     \<not> dry_run m \<and> config (delay_manager m) = cfg
     \<and> sent_this_hour (stats (delay_manager m)) = int k
     \<and> sent_today (stats (delay_manager m)) = int k
     \<and> (k = 0 \<or> (current_date (stats (delay_manager m)) = Some (dt_date now)
                 \<and> current_hour (stats (delay_manager m)) = Some (dt_hour now)))"

section \<open>Concrete inputs\<close>

text \<open>
  The values at which the theorems below are instantiated: an instant, a
  surrounding in which composing and sending succeed and no write fails, a few
  businesses, and a delay manager as \<open>DelayManager(config)\<close> builds it without a
  statistics file (the threshold draw taking the lower bound).
\<close>

definition t0 :: datetime where
  "t0 = \<lparr>dt_date = ''2025-10-16'', dt_hour = 9, dt_rest = ''30:00''\<rparr>"

definition w0 :: wait_env where
  "w0 = \<lparr>delay_seed = 0, batch_seed = 0, threshold_seed = 0, batch_time = t0\<rparr>"

definition e_ok :: step_env where
  "e_ok = \<lparr>check_time = t0, compose = Inr ''Hello'', transport = Inr (True, []),
           sent_time = t0, stats_fault = NoFault, result_time = t0, track_time = t0,
           progress_fault = NoFault, wait = w0,
           handler_result_time = t0, handler_track_time = t0\<rparr>"

definition shop :: "nat \<Rightarrow> Business" where
  "shop k = \<lparr>business_name = ''Shop '' @ digits k, phone = ''+62'' @ digits k,
             description = None, website = None, google_maps_link = None\<rparr>"

definition new_delay_manager :: "RateLimitConfig \<Rightarrow> DelayManager" where
  "new_delay_manager cfg =
     \<lparr>config = cfg,
      stats = SendingStats_default\<lparr>next_batch_delay_at := fst (messages_per_batch cfg)\<rparr>,
      stats_file = False, stats_disk = NoFile, slept = []\<rparr>"

text \<open>
  The configuration of the end-to-end scenario of the specification
  (\<open>maxPerHour = 3\<close>, delays disabled) and the one of the fixture of
  \<^verbatim>\<open>tests/test_delay_manager.py\<close> (10 a day, 5 an hour).
\<close>

definition scenario_config :: RateLimitConfig where
  "scenario_config = RateLimitConfig_default\<lparr>max_messages_per_hour := 3, enable_delays := False\<rparr>"

definition fixture_config :: RateLimitConfig where
  "fixture_config =
     \<lparr>min_message_delay = 1, max_message_delay = 2, messages_per_batch = (3, 5),
      min_batch_delay = 2, max_batch_delay = 3,
      max_messages_per_day = 10, max_messages_per_hour = 5,
      enable_delays = True, enable_daily_limit = True, enable_hourly_limit = True\<rparr>"

definition live_manager :: "RateLimitConfig \<Rightarrow> CampaignManager" where
  "live_manager cfg = CampaignManager_init False (new_delay_manager cfg) False NoFile"

definition dry_manager :: "RateLimitConfig \<Rightarrow> CampaignManager" where
  "dry_manager cfg = CampaignManager_init True (new_delay_manager cfg) False NoFile"

text \<open>
  Two tracked attempts (a failure that took 5 seconds, a success that took 3), two
  calls of \<open>_record_result\<close>, and a dry-run manager with a progress file that has
  recorded one result.
\<close>

definition two_attempts :: "track_event list" where
  "two_attempts =
     [TrackFailed ''Shop 1'' ''+621'' ''creation'' False ''Network timeout'' 5 0 t0,
      TrackSent ''Shop 2'' ''+622'' ''creation'' False 3 0 t0]"

definition two_calls :: "result_call list" where
  "two_calls =
     [\<lparr>rc_result_time = t0, rc_track_time = t0, rc_business = shop 1,
       rc_status = ''success'', rc_error = None, rc_message = Some ''Hello'',
       rc_duration = 0, rc_retry_count = 0\<rparr>,
      \<lparr>rc_result_time = t0, rc_track_time = t0, rc_business = shop 2,
       rc_status = ''failed'', rc_error = Some ''Send operation failed'',
       rc_message = Some ''Hello'', rc_duration = 0, rc_retry_count = 0\<rparr>]"

definition stored_manager :: CampaignManager where
  "stored_manager =
     record_result t0 t0 (shop 1) ''success'' None (Some ''Hello'') 0 0
       (CampaignManager_init True (new_delay_manager scenario_config) True NoFile)"

text \<open>
  The progress file after a run that has processed one recipient, with success, and
  a live manager built on that file.
\<close>

definition progress_after_one :: progress_data where
  "progress_after_one =
     \<lparr>pd_last_processed_index = Some 0, pd_processed = Some 1, pd_sent = Some 1,
      pd_failed = Some 0, pd_skipped = Some 0, pd_start_time = Some (Some t0)\<rparr>"

definition restored_manager :: "RateLimitConfig \<Rightarrow> CampaignManager" where
  "restored_manager cfg =
     CampaignManager_init False (new_delay_manager cfg) True (Holds progress_after_one)"

text \<open>
  The configuration of \<open>create_test_delay_manager\<close> (both limits disabled), and one
  that allows a single message an hour.
\<close>

definition test_config :: RateLimitConfig where
  "test_config =
     \<lparr>min_message_delay = 1, max_message_delay = 3, messages_per_batch = (3, 5),
      min_batch_delay = 5, max_batch_delay = 10,
      max_messages_per_day = 1000, max_messages_per_hour = 100,
      enable_delays = True, enable_daily_limit = False, enable_hourly_limit = False\<rparr>"

definition one_an_hour_config :: RateLimitConfig where
  "one_an_hour_config =
     RateLimitConfig_default\<lparr>max_messages_per_hour := 1, enable_delays := False\<rparr>"

text \<open>
  A live manager of the scenario that has reached the hourly cap in the current hour,
  and a dry-run manager whose statistics come from the hour before.
\<close>

definition manager_at_cap :: CampaignManager where
  "manager_at_cap =
     (live_manager scenario_config)
       \<lparr>delay_manager := (new_delay_manager scenario_config)
          \<lparr>stats := (stats (new_delay_manager scenario_config))
             \<lparr>total_sent := 3, sent_today := 3, sent_this_hour := 3,
              current_date := Some (dt_date t0), current_hour := Some (dt_hour t0)\<rparr>\<rparr>\<rparr>"

definition manager_from_last_hour :: CampaignManager where
  "manager_from_last_hour =
     (dry_manager scenario_config)
       \<lparr>delay_manager := (new_delay_manager scenario_config)
          \<lparr>stats := (stats (new_delay_manager scenario_config))
             \<lparr>total_sent := 4, sent_today := 4, sent_this_hour := 4,
              current_date := Some (dt_date t0), current_hour := Some 8\<rparr>\<rparr>\<rparr>"

definition one_shop_run :: run_env where
  "one_shop_run =
     \<lparr>excel = [shop 1], campaign_start = t0, whatsapp_ok = True, loop_start = t0,
      steps = (\<lambda>_. e_ok), loop_end = t0, final_fault = NoFault, campaign_end = t0,
      elapsed_seconds = 1, arith = exact_arith,
      report = \<lparr>print_check = t0, detail_check = Some t0, csv_check = Some t0\<rparr>\<rparr>"

text \<open>A configuration whose hourly cap is 0.\<close>

definition zero_cap_config :: RateLimitConfig where
  "zero_cap_config =
     RateLimitConfig_default\<lparr>max_messages_per_hour := 0, enable_delays := False\<rparr>"

text \<open>
  The end-to-end scenario of the specification: \<open>maxPerHour = 3\<close>, delays disabled,
  five recipients, live mode, every send succeeds, all within one hour.
\<close>

definition five_shops :: "Business list" where
  "five_shops = map shop [1, 2, 3, 4, 5]"

definition scenario_run :: CampaignManager where
  "scenario_run =
     send_messages t0 (\<lambda>_. e_ok) t0 NoFault five_shops (live_manager scenario_config)"

section \<open>Properties of the delay manager\<close>

text \<open>
  \<open>new_delay_manager cfg\<close> is what the constructor returns for a configuration with a
  non-empty batch range, no statistics file, and the draw that takes the lower bound.
\<close>

lemma new_delay_manager_is_init:
  "fst (messages_per_batch cfg) \<le> snd (messages_per_batch cfg)
   \<Longrightarrow> DelayManager_init cfg False NoFile 0 = Inr (new_delay_manager cfg)"
  by (simp add: DelayManager_init_def reset_batch_threshold_def randint_def
        new_delay_manager_def Let_def)

text \<open>
  C9.  With \<open>enable_delays\<close> false and \<open>force\<close> false, \<open>wait_between_messages\<close> returns at
  once: no exception, no sleep, no random draw, and the whole manager (in particular
  \<open>messages_since_batch_delay\<close> and \<open>next_batch_delay_at\<close>) is as before, so no batch
  delay is triggered while delays are disabled.
\<close>

theorem wait_disabled_is_noop:
  assumes "\<not> enable_delays (config dm)"
  shows "wait_between_messages False w dm = (None, dm)"
  using assms by (simp add: wait_between_messages_def)

theorem wait_disabled_is_noop_witness:
  "\<not> enable_delays (config (new_delay_manager scenario_config))
   \<and> wait_between_messages False w0 (new_delay_manager scenario_config)
       = (None, new_delay_manager scenario_config)"
proof -
  have h: "\<not> enable_delays (config (new_delay_manager scenario_config))"
    by (simp add: new_delay_manager_def scenario_config_def)
  show ?thesis using h wait_disabled_is_noop [OF h, of w0] by simp
qed

lemma record_message_sent_stats [simp]:
  "current_date (stats (record_message_sent now f dm)) = current_date (stats dm)"
  "current_hour (stats (record_message_sent now f dm)) = current_hour (stats dm)"
  "config (record_message_sent now f dm) = config dm"
  "sent_today (stats (record_message_sent now f dm)) = sent_today (stats dm) + 1"
  "sent_this_hour (stats (record_message_sent now f dm)) = sent_this_hour (stats dm) + 1"
  "total_sent (stats (record_message_sent now f dm)) = total_sent (stats dm) + 1"
  by (simp_all add: record_message_sent_def save_stats_def Let_def)

lemma record_many_stats [simp]:
  "current_date (stats ((record_message_sent now f ^^ k) dm)) = current_date (stats dm)"
  "current_hour (stats ((record_message_sent now f ^^ k) dm)) = current_hour (stats dm)"
  "config ((record_message_sent now f ^^ k) dm) = config dm"
  "sent_today (stats ((record_message_sent now f ^^ k) dm)) = sent_today (stats dm) + int k"
  by (induction k) simp_all

text \<open>
  \<open>record_message_sent\<close> never sets the bucket labels.  On a manager whose labels are
  still unset, the first \<open>can_send_message\<close> therefore takes every instant for a new
  day and a new hour and clears both counters before it compares them.
\<close>

lemma unset_buckets_reset_counters:
  assumes "current_date (stats dm) = None" "current_hour (stats dm) = None"
    and "0 < max_messages_per_day (config dm)" "0 < max_messages_per_hour (config dm)"
  shows "fst (can_send_message now ((record_message_sent t f ^^ k) dm)) = (True, None)"
  using assms by (simp add: can_send_message_def Let_def)

text \<open>
  Once the day label is the current day (as after any earlier \<open>can_send_message\<close> of
  that day), \<open>N\<close> recorded sends do block with the daily reason.
\<close>

lemma established_bucket_enforces_daily_limit:
  assumes "current_date (stats dm) = Some (dt_date now)"
    and "enable_daily_limit (config dm)"
    and "sent_today (stats dm) = 0"
    and "max_messages_per_day (config dm) = int k"
  shows "fst (can_send_message now ((record_message_sent t f ^^ k) dm))
         = (False, Some (daily_limit_reason (config dm)))"
  using assms by (simp add: can_send_message_def Let_def)

text \<open>
  C2.  The claim: with the daily limit enabled and \<open>max_messages_per_day = N\<close>, after
  \<open>N\<close> calls of \<open>record_message_sent\<close> on one day \<open>can_send_message\<close> returns
  \<open>(False, daily-limit reason)\<close>.  The code at the input of the repository's own
  \<^verbatim>\<open>test_daily_limit\<close> (a newly built manager, limit 10, ten recorded sends, all at
  one instant): \<open>sent_today\<close> has reached the limit, and \<open>can_send_message\<close> answers
  \<open>(True, None)\<close>.
\<close>

theorem fresh_manager_daily_limit_not_enforced:
  "sent_today (stats ((record_message_sent t0 NoFault ^^ 10) (new_delay_manager fixture_config)))
     = max_messages_per_day fixture_config
   \<and> enable_daily_limit fixture_config
   \<and> fst (can_send_message t0
         ((record_message_sent t0 NoFault ^^ 10) (new_delay_manager fixture_config)))
       = (True, None)"
  using unset_buckets_reset_counters
    [where dm = "new_delay_manager fixture_config" and now = t0 and t = t0
       and f = NoFault and k = 10]
  by (simp add: new_delay_manager_def fixture_config_def SendingStats_default_def)

section \<open>Properties of a single send\<close>

text \<open>
  C4.  The claim: a transport send that fails or raises becomes an attempt result
  with outcome failed that carries the failure detail.  The code, in live mode, when
  \<open>send_message\<close> returns its failure value \<open>(False, detail)\<close>: the tuple is true in
  \<^verbatim>\<open>if success:\<close>, so the send counts as a success, \<open>record_message_sent\<close> runs and
  the detail is dropped.
\<close>

theorem returned_failure_recorded_as_success:
  "send_single_message (e\<lparr>compose := Inr msg, transport := Inr (False, detail)\<rparr>) b
     (m\<lparr>dry_run := False\<rparr>)
   = (\<lparr>sr_status = ''success'', sr_error = None, sr_message = Some msg\<rparr>,
      m\<lparr>dry_run := False,
        delay_manager := record_message_sent (sent_time e) (stats_fault e) (delay_manager m)\<rparr>)"
  by (simp add: send_single_message_def tuple_truthy_def)

section \<open>Properties of the result recording\<close>

lemma record_result_progress [simp]:
  "results (progress (record_result ts tts b st err msg d r m))
     = results (progress m) @
       [\<lparr>mr_business_name = business_name b, mr_phone = phone b,
         mr_message_type = detect_message_type b, mr_status = st, mr_error = err,
         mr_timestamp = ts, mr_message_preview = message_preview msg\<rparr>]"
  "sent (progress (record_result ts tts b st err msg d r m))
     = sent (progress m) + (if st = ''success'' then 1 else 0)"
  "failed (progress (record_result ts tts b st err msg d r m))
     = failed (progress m) + (if st = ''failed'' then 1 else 0)"
  "skipped (progress (record_result ts tts b st err msg d r m))
     = skipped (progress m) + (if st = ''skipped'' then 1 else 0)"
  "processed (progress (record_result ts tts b st err msg d r m)) = processed (progress m)"
  "last_processed_index (progress (record_result ts tts b st err msg d r m))
     = last_processed_index (progress m)"
  "total_businesses (progress (record_result ts tts b st err msg d r m))
     = total_businesses (progress m)"
  "start_time (progress (record_result ts tts b st err msg d r m)) = start_time (progress m)"
  "end_time (progress (record_result ts tts b st err msg d r m)) = end_time (progress m)"
  by (simp_all add: record_result_def Let_def)

lemma record_result_frame [simp]:
  "delay_manager (record_result ts tts b st err msg d r m) = delay_manager m"
  "dry_run (record_result ts tts b st err msg d r m) = dry_run m"
  "progress_file (record_result ts tts b st err msg d r m) = progress_file m"
  "progress_disk (record_result ts tts b st err msg d r m) = progress_disk m"
  by (simp_all add: record_result_def Let_def)

lemma record_call_counts:
  assumes "rc_status c \<in> {''success'', ''failed'', ''skipped''}"
  shows "outcome_total (progress (record_call c m)) = outcome_total (progress m) + 1"
    and "length (results (progress (record_call c m))) = length (results (progress m)) + 1"
  using assms by (auto simp: record_call_def outcome_total_def)

lemma record_results_exact:
  "results (progress (record_results cs m)) = results (progress m) @ map call_result cs"
  "sent (progress (record_results cs m)) = sent (progress m) + status_count ''success'' cs"
  "failed (progress (record_results cs m)) = failed (progress m) + status_count ''failed'' cs"
  "skipped (progress (record_results cs m)) = skipped (progress m) + status_count ''skipped'' cs"
  by (induction cs arbitrary: m;
      simp add: record_call_def call_result_def status_count_def)+

lemma status_counts_total:
  "\<forall>c \<in> set cs. rc_status c \<in> {''success'', ''failed'', ''skipped''}
   \<Longrightarrow> status_count ''success'' cs + status_count ''failed'' cs + status_count ''skipped'' cs
         = int (length cs)"
  by (induction cs) (auto simp: status_count_def)

text \<open>
  C8, as amended.  A call of \<open>_record_result\<close> appends exactly one result, the one
  built from its arguments, and with a status among success, failed and skipped it
  adds one to exactly one counter: to \<open>sent\<close> for success, to \<open>failed\<close> for failed, to
  \<open>skipped\<close> for skipped; the other two keep their values.  After any sequence of such
  calls \<open>results\<close> has grown by the results of the calls, in order, each counter by
  the number of calls with its status, and so the length of \<open>results\<close> and the sum
  \<open>sent + failed + skipped\<close> have both grown by the number of calls: the two are equal
  after the calls exactly when they were equal before, as they are in a manager that
  starts from the default progress.
\<close>

theorem record_results_counts:
  assumes "\<forall>c \<in> set cs. rc_status c \<in> {''success'', ''failed'', ''skipped''}"
  shows "results (progress (record_call c m)) = results (progress m) @ [call_result c]
       \<and> sent (progress (record_call c m))
           = sent (progress m) + (if rc_status c = ''success'' then 1 else 0)
       \<and> failed (progress (record_call c m))
           = failed (progress m) + (if rc_status c = ''failed'' then 1 else 0)
       \<and> skipped (progress (record_call c m))
           = skipped (progress m) + (if rc_status c = ''skipped'' then 1 else 0)
       \<and> results (progress (record_results cs m)) = results (progress m) @ map call_result cs
       \<and> sent (progress (record_results cs m)) = sent (progress m) + status_count ''success'' cs
       \<and> failed (progress (record_results cs m))
           = failed (progress m) + status_count ''failed'' cs
       \<and> skipped (progress (record_results cs m))
           = skipped (progress m) + status_count ''skipped'' cs
       \<and> status_count ''success'' cs + status_count ''failed'' cs + status_count ''skipped'' cs
           = int (length cs)
       \<and> length (results (progress (record_results cs m)))
           = length (results (progress m)) + length cs
       \<and> outcome_total (progress (record_results cs m))
           = outcome_total (progress m) + int (length cs)"
proof -
  note tot = status_counts_total [OF assms]
  have one: "results (progress (record_call c m)) = results (progress m) @ [call_result c]"
    "sent (progress (record_call c m))
       = sent (progress m) + (if rc_status c = ''success'' then 1 else 0)"
    "failed (progress (record_call c m))
       = failed (progress m) + (if rc_status c = ''failed'' then 1 else 0)"
    "skipped (progress (record_call c m))
       = skipped (progress m) + (if rc_status c = ''skipped'' then 1 else 0)"
    by (simp_all add: record_call_def call_result_def)
  have total: "outcome_total (progress (record_results cs m))
                 = outcome_total (progress m) + int (length cs)"
    using tot by (simp add: outcome_total_def record_results_exact)
  show ?thesis
    using one tot total by (simp add: record_results_exact)
qed

theorem record_results_counts_witness:
  "outcome_total (progress (record_results two_calls (dry_manager scenario_config)))
     = int (length (results (progress (record_results two_calls (dry_manager scenario_config)))))
   \<and> length (results (progress (record_results two_calls (dry_manager scenario_config)))) = 2
   \<and> sent (progress (record_results two_calls (dry_manager scenario_config))) = 1
   \<and> failed (progress (record_results two_calls (dry_manager scenario_config))) = 1
   \<and> skipped (progress (record_results two_calls (dry_manager scenario_config))) = 0"
  using record_results_counts [of two_calls "hd two_calls" "dry_manager scenario_config"]
  by (simp add: two_calls_def dry_manager_def CampaignManager_init_def
        CampaignProgress_default_def outcome_total_def status_count_def)

text \<open>
  The claim C8 as stated (the equality in every run) fails in a resumed run: the
  constructor restores the counters from the progress file, which does not hold the
  results.  After one recorded success on a manager restored from the file of a run
  that processed one recipient, the counters add up to 2 and \<open>results\<close> has 1 entry.
\<close>

theorem resumed_run_counters_exceed_results:
  "outcome_total
     (progress (record_result t0 t0 (shop 2) ''success'' None (Some ''Hello'') 0 0
                  (restored_manager scenario_config))) = 2
   \<and> length
       (results
          (progress (record_result t0 t0 (shop 2) ''success'' None (Some ''Hello'') 0 0
                       (restored_manager scenario_config)))) = 1"
  by (simp add: restored_manager_def CampaignManager_init_def load_progress_def
        progress_after_one_def CampaignProgress_default_def outcome_total_def get_or_def)

section \<open>Properties of the metrics\<close>

lemma track_counts:
  "messages_sent (current_campaign (track e t))
     = messages_sent (current_campaign t) + (if is_sent e then 1 else 0)"
  "messages_failed (current_campaign (track e t))
     = messages_failed (current_campaign t) + (if is_failed e then 1 else 0)"
  "successful_timings (track e t)
     = successful_timings t @ (if is_sent e \<and> 0 < event_duration e then [event_duration e] else [])"
  "success_rate (current_campaign (track e t)) = success_rate (current_campaign t)"
  "average_message_time (current_campaign (track e t)) = average_message_time (current_campaign t)"
  by (cases e; simp add: track_message_sent_def track_message_failed_def
       track_message_skipped_def successful_timings_def Let_def)+

lemma track_all_counts:
  "messages_sent (current_campaign (track_all es t))
     = messages_sent (current_campaign t) + sent_count es"
  "messages_failed (current_campaign (track_all es t))
     = messages_failed (current_campaign t) + failed_count es"
  "successful_timings (track_all es t) = successful_timings t @ sent_durations es"
  "success_rate (current_campaign (track_all es t)) = success_rate (current_campaign t)"
  "average_message_time (current_campaign (track_all es t)) = average_message_time (current_campaign t)"
  by (induction es arbitrary: t;
      simp add: track_counts sent_count_def failed_count_def sent_durations_def)+

lemma start_campaign_metrics:
  "messages_sent (current_campaign (start_campaign k now t)) = 0"
  "messages_failed (current_campaign (start_campaign k now t)) = 0"
  "success_rate (current_campaign (start_campaign k now t)) = 0"
  "average_message_time (current_campaign (start_campaign k now t)) = 0"
  "successful_timings (start_campaign k now AnalyticsTracker_init) = []"
  by (simp_all add: start_campaign_def CampaignMetrics_default_def successful_timings_def
        AnalyticsTracker_init_def)

lemma tracked_campaign_rates:
  "success_rate (tracked_campaign fa total_n t_start es t_end elapsed)
     = (if 0 < sent_count es + failed_count es
        then float_mul fa (int_div fa (sent_count es) (sent_count es + failed_count es)) 100
        else 0)"
  "average_message_time (tracked_campaign fa total_n t_start es t_end elapsed)
     = (if sent_durations es = [] then 0
        else float_div fa (float_sum fa (sent_durations es)) (int (length (sent_durations es))))"
  by (simp_all add: tracked_campaign_def end_campaign_def Let_def track_all_counts
        start_campaign_metrics)

text \<open>
  C5, as amended.  For every sequence of tracked attempts and whatever the float
  arithmetic, \<open>end_campaign\<close> sets the success rate to the value of the expression
  \<open>(sent / (sent + failed)) * 100\<close>, a percentage, where \<open>sent\<close> and \<open>failed\<close> count the
  successful and the failed attempts (skipped attempts are in neither number; the
  rate stays 0 when \<open>sent + failed = 0\<close>), and the average message time to
  \<open>sum(ds) / len(ds)\<close> where \<open>ds\<close> are the durations of the successful attempts whose
  duration is strictly positive, in order (it stays 0 when there is none); failed
  attempts do not enter the mean.
\<close>

theorem end_campaign_metrics:
  "success_rate (tracked_campaign fa total_n t_start es t_end elapsed)
     = (if 0 < sent_count es + failed_count es
        then float_mul fa (int_div fa (sent_count es) (sent_count es + failed_count es)) 100
        else 0)
   \<and> average_message_time (tracked_campaign fa total_n t_start es t_end elapsed)
     = (if sent_durations es = [] then 0
        else float_div fa (float_sum fa (sent_durations es)) (int (length (sent_durations es))))"
  by (simp add: tracked_campaign_rates)

theorem end_campaign_metrics_witness:
  "success_rate (tracked_campaign exact_arith 2 t0 two_attempts t0 8) = 50
   \<and> average_message_time (tracked_campaign exact_arith 2 t0 two_attempts t0 8) = 3"
  using end_campaign_metrics [of exact_arith 2 t0 two_attempts t0 8]
  by (simp add: sent_durations_def sent_count_def failed_count_def two_attempts_def
        exact_arith_def)

text \<open>
  The claim C5 as stated fails on a failed attempt with a positive duration (the
  tracker accepts one, as in \<^verbatim>\<open>test_phase6.py\<close>).  With a failure of 5 seconds and a
  success of 3 seconds the durations of the attempts with a positive duration are
  5 and 3, with mean 4; the list the code averages holds the 3 alone, and the
  average message time is 3.  With one success and one failure the stored rate is
  50, not the ratio 1/2.
\<close>

theorem mean_duration_excludes_failures:
  "attempt_durations two_attempts = [5, 3]
   \<and> mean (attempt_durations two_attempts) = 4
   \<and> successful_timings (track_all two_attempts (start_campaign 2 t0 AnalyticsTracker_init))
       = [3]
   \<and> average_message_time (tracked_campaign exact_arith 2 t0 two_attempts t0 8) = 3
   \<and> sent_count two_attempts = 1 \<and> failed_count two_attempts = 1
   \<and> success_rate (tracked_campaign exact_arith 2 t0 two_attempts t0 8) = 50"
proof -
  have timings:
    "successful_timings (track_all two_attempts (start_campaign 2 t0 AnalyticsTracker_init))
       = sent_durations two_attempts"
    by (simp add: track_all_counts start_campaign_metrics)
  have ds: "sent_durations two_attempts = [3]"
    by (simp add: sent_durations_def two_attempts_def)
  have all: "attempt_durations two_attempts = [5, 3]"
    by (simp add: attempt_durations_def two_attempts_def)
  have counts: "sent_count two_attempts = 1" "failed_count two_attempts = 1"
    by (simp_all add: sent_count_def failed_count_def two_attempts_def)
  show ?thesis
    by (simp add: tracked_campaign_rates timings ds all counts mean_def exact_arith_def)
qed

section \<open>Properties of the persistence\<close>

lemma get_time_Some [simp]: "get_time (Some v) None = v"
  by (cases v) (simp_all add: get_time_def)

lemma get_or_Some [simp]: "get_or (Some v) d = v"
  by (simp add: get_or_def)

text \<open>
  C6, as amended.  After a completed save, a later process that loads the files
  finds: every field of the statistics as saved; of the progress the six persisted
  fields (\<open>last_processed_index\<close>, \<open>processed\<close>, \<open>sent\<close>, \<open>failed\<close>, \<open>skipped\<close>,
  \<open>start_time\<close>) as saved, while \<open>results\<close>, \<open>total_businesses\<close> and \<open>end_time\<close> are not
  written and have their defaults.
\<close>

theorem persisted_fields_round_trip:
  assumes "progress_file m" and "stats_file dm"
  shows "progress (reopen_progress dry dm' (save_progress NoFault m))
           = (progress m)\<lparr>total_businesses := 0, end_time := None, results := []\<rparr>
       \<and> stats (reopen_stats (save_stats NoFault dm)) = stats dm"
  using assms
  by (simp add: reopen_progress_def reopen_stats_def save_progress_def save_stats_def
        write_json_def CampaignManager_init_def load_progress_def load_stats_def
        CampaignProgress_default_def SendingStats_default_def Let_def)

theorem persisted_fields_round_trip_witness:
  "progress_file stored_manager
   \<and> sent (progress (reopen_progress True (new_delay_manager scenario_config)
                       (save_progress NoFault stored_manager))) = 1
   \<and> stats (reopen_stats (save_stats NoFault
              ((new_delay_manager scenario_config)\<lparr>stats_file := True\<rparr>)))
       = stats (new_delay_manager scenario_config)"
proof -
  have p: "progress_file stored_manager"
    by (simp add: stored_manager_def CampaignManager_init_def)
  have s: "stats_file ((new_delay_manager scenario_config)\<lparr>stats_file := True\<rparr>)"
    by simp
  have one: "sent (progress stored_manager) = 1"
    by (simp add: stored_manager_def CampaignManager_init_def CampaignProgress_default_def)
  show ?thesis
    using p one
      persisted_fields_round_trip [OF p s, of True "new_delay_manager scenario_config"]
    by simp
qed

text \<open>
  The claim C6 as stated (the loaded progress equals the saved one) fails as soon as
  a result has been recorded: the saved progress holds it, the loaded one does not.
\<close>

theorem results_not_round_tripped:
  "length (results (progress stored_manager)) = 1
   \<and> results (progress (reopen_progress True (new_delay_manager scenario_config)
                          (save_progress NoFault stored_manager))) = []"
  by (simp add: stored_manager_def reopen_progress_def save_progress_def write_json_def
        CampaignManager_init_def load_progress_def CampaignProgress_default_def)




section \<open>Properties of the sending loop\<close>

lemma save_progress_frame [simp]:
  "progress (save_progress f m) = progress m"
  "delay_manager (save_progress f m) = delay_manager m"
  "dry_run (save_progress f m) = dry_run m"
  "analytics_tracker (save_progress f m) = analytics_tracker m"
  "progress_file (save_progress f m) = progress_file m"
  by (simp_all add: save_progress_def)

lemma send_single_message_cases:
  "(\<exists>err. send_single_message e b m
        = (\<lparr>sr_status = ''failed'', sr_error = Some err, sr_message = None\<rparr>, m))
   \<or> (\<exists>msg. send_single_message e b m
        = (\<lparr>sr_status = ''success'', sr_error = None, sr_message = Some msg\<rparr>,
           if dry_run m then m
           else m\<lparr>delay_manager :=
                   record_message_sent (sent_time e) (stats_fault e) (delay_manager m)\<rparr>))"
  by (cases "compose e"; cases "transport e"; simp add: send_single_message_def tuple_truthy_def)

text \<open>What one iteration does to the progress.\<close>

lemma loop_body_progress:
  "(\<exists>m1 r. loop_body e n i b m = (Break, m1)
       \<and> \<not> fst (fst (can_send_message (check_time e) (delay_manager m)))
       \<and> results (progress m1) = results (progress m) @ [r]
       \<and> result_ident r = business_ident b
       \<and> mr_status r = ''skipped''
       \<and> mr_error r = snd (fst (can_send_message (check_time e) (delay_manager m)))
       \<and> skipped (progress m1) = skipped (progress m) + 1
       \<and> processed (progress m1) = processed (progress m)
       \<and> last_processed_index (progress m1) = last_processed_index (progress m)
       \<and> sent (progress m1) = sent (progress m)
       \<and> failed (progress m1) = failed (progress m))
   \<or> (\<exists>m1 rs. loop_body e n i b m = (Next, m1)
       \<and> fst (fst (can_send_message (check_time e) (delay_manager m)))
       \<and> results (progress m1) = results (progress m) @ rs
       \<and> rs \<noteq> []
       \<and> (\<forall>r \<in> set rs. result_ident r = business_ident b \<and> mr_status r \<noteq> ''skipped'')
       \<and> skipped (progress m1) = skipped (progress m)
       \<and> processed (progress m1) = processed (progress m) + 1
       \<and> last_processed_index (progress m1) = int i
       \<and> sent (progress m1)
           = sent (progress m) + int (length (filter (\<lambda>r. mr_status r = ''success'') rs)))"
proof -
  obtain verdict dm1 where cs: "can_send_message (check_time e) (delay_manager m) = (verdict, dm1)"
    by (cases "can_send_message (check_time e) (delay_manager m)")
  show ?thesis
  proof (cases "fst verdict")
  case False
  show ?thesis
    by (rule disjI1)
       (simp add: loop_body_def Let_def cs False result_ident_def business_ident_def)
next
  case True
  have ok: "fst verdict" using True by simp
  from send_single_message_cases [of e b "m\<lparr>delay_manager := dm1\<rparr>"]
  show ?thesis
  proof (elim disjE exE)
    fix err
    assume s: "send_single_message e b (m\<lparr>delay_manager := dm1\<rparr>)
               = (\<lparr>sr_status = ''failed'', sr_error = Some err, sr_message = None\<rparr>,
                  m\<lparr>delay_manager := dm1\<rparr>)"
    show ?thesis
      by (rule disjI2)
         (simp add: loop_body_def Let_def cs ok s result_ident_def business_ident_def)
  next
    fix msg
    assume s: "send_single_message e b (m\<lparr>delay_manager := dm1\<rparr>)
               = (\<lparr>sr_status = ''success'', sr_error = None, sr_message = Some msg\<rparr>,
                  if dry_run (m\<lparr>delay_manager := dm1\<rparr>) then m\<lparr>delay_manager := dm1\<rparr>
                  else m\<lparr>delay_manager := dm1\<rparr>\<lparr>delay_manager :=
                         record_message_sent (sent_time e) (stats_fault e)
                           (delay_manager (m\<lparr>delay_manager := dm1\<rparr>))\<rparr>)"
    show ?thesis
      by (rule disjI2)
         (auto simp add: loop_body_def Let_def cs ok s result_ident_def business_ident_def
            split: prod.split option.split)
  qed
qed
qed


lemma in_order_skip: "in_order ids bs \<Longrightarrow> in_order ids (b # bs)"
  by (cases ids) simp_all

lemma in_order_repeat:
  "in_order ids bs \<Longrightarrow> in_order (replicate c (business_ident b) @ ids) (b # bs)"
  by (induction c) (simp_all add: in_order_skip)

lemma map_constant: "\<forall>x \<in> set xs. f x = c \<Longrightarrow> map f xs = replicate (length xs) c"
  by (induction xs) simp_all

lemma send_loop_progress:
  "\<exists>rs. results (progress (send_loop env n i bs m)) = results (progress m) @ rs
       \<and> in_order (map result_ident rs) bs
       \<and> sent (progress (send_loop env n i bs m)) = sent (progress m) + successes rs
       \<and> (skipped (progress (send_loop env n i bs m)) = skipped (progress m)
            \<longrightarrow> processed (progress (send_loop env n i bs m))
                  = processed (progress m) + int (length bs))"
proof (induction bs arbitrary: i m)
  case Nil
  show ?case by (simp add: successes_def)
next
  case (Cons b bs)
  from loop_body_progress [of "env i" n i b m]
  show ?case
  proof (elim disjE exE conjE)
    fix m1 r
    assume body: "loop_body (env i) n i b m = (Break, m1)"
      and res: "results (progress m1) = results (progress m) @ [r]"
      and ident: "result_ident r = business_ident b"
      and st: "mr_status r = ''skipped''"
      and sk: "skipped (progress m1) = skipped (progress m) + 1"
      and se: "sent (progress m1) = sent (progress m)"
    have loop: "send_loop env n i (b # bs) m = m1" using body by simp
    have "in_order (map result_ident [r]) (b # bs)" using ident by simp
    then show ?thesis
      using loop res st sk se by (intro exI [of _ "[r]"]) (simp add: successes_def)
  next
    fix m1 rs
    assume body: "loop_body (env i) n i b m = (Next, m1)"
      and res: "results (progress m1) = results (progress m) @ rs"
      and ident: "\<forall>r \<in> set rs. result_ident r = business_ident b \<and> mr_status r \<noteq> ''skipped''"
      and sk: "skipped (progress m1) = skipped (progress m)"
      and pr: "processed (progress m1) = processed (progress m) + 1"
      and se: "sent (progress m1)
                 = sent (progress m) + int (length (filter (\<lambda>r. mr_status r = ''success'') rs))"
    have loop: "send_loop env n i (b # bs) m = send_loop env n (Suc i) bs m1" using body by simp
    from Cons.IH [of "Suc i" m1] obtain rs' where
      res': "results (progress (send_loop env n (Suc i) bs m1)) = results (progress m1) @ rs'"
      and ord': "in_order (map result_ident rs') bs"
      and se': "sent (progress (send_loop env n (Suc i) bs m1)) = sent (progress m1) + successes rs'"
      and pr': "skipped (progress (send_loop env n (Suc i) bs m1)) = skipped (progress m1)
                \<longrightarrow> processed (progress (send_loop env n (Suc i) bs m1))
                      = processed (progress m1) + int (length bs)"
      by blast
    have "map result_ident rs = replicate (length rs) (business_ident b)"
      using ident by (intro map_constant) simp
    then have ord: "in_order (map result_ident (rs @ rs')) (b # bs)"
      using in_order_repeat [OF ord', of "length rs" b] by simp
    show ?thesis
      using loop res res' ord se se' pr pr' sk
      by (intro exI [of _ "rs @ rs'"]) (simp add: successes_def)
  qed
qed

lemma can_send_message_frame [simp]:
  "config (snd (can_send_message now dm)) = config dm"
  by (simp add: can_send_message_def Let_def)

lemma can_send_message_kept:
  "counters_kept (stats dm) (stats (snd (can_send_message now dm)))"
  by (simp add: can_send_message_def Let_def counters_kept_def)

lemma reset_batch_threshold_frame [simp]:
  "config (snd (reset_batch_threshold seed dm)) = config dm"
  "total_sent (stats (snd (reset_batch_threshold seed dm))) = total_sent (stats dm)"
  "sent_today (stats (snd (reset_batch_threshold seed dm))) = sent_today (stats dm)"
  "sent_this_hour (stats (snd (reset_batch_threshold seed dm))) = sent_this_hour (stats dm)"
  "messages_since_batch_delay (stats (snd (reset_batch_threshold seed dm)))
     = messages_since_batch_delay (stats dm)"
  by (simp_all add: reset_batch_threshold_def split: sum.split)

lemma do_batch_delay_frame [simp]:
  "config (snd (do_batch_delay w dm)) = config dm"
  by (simp add: do_batch_delay_def sleep_with_countdown_def Let_def split: sum.split)

lemma do_batch_delay_kept:
  "counters_kept (stats dm) (stats (snd (do_batch_delay w dm)))"
  by (simp add: do_batch_delay_def sleep_with_countdown_def Let_def counters_kept_def
        split: sum.split)

lemma wait_between_messages_frame [simp]:
  "config (snd (wait_between_messages force w dm)) = config dm"
  by (simp add: wait_between_messages_def sleep_with_countdown_def split: sum.split)

lemma wait_between_messages_kept:
  "counters_kept (stats dm) (stats (snd (wait_between_messages force w dm)))"
  using do_batch_delay_kept [of dm w]
  by (simp add: wait_between_messages_def sleep_with_countdown_def counters_kept_def
        split: sum.split)

lemma counters_kept_refl [simp]: "counters_kept s s"
  by (simp add: counters_kept_def)

lemma counters_kept_trans:
  "counters_kept s1 s2 \<Longrightarrow> counters_kept s2 s3 \<Longrightarrow> counters_kept s1 s3"
  by (auto simp: counters_kept_def)

lemma send_single_message_frame [simp]:
  "dry_run (snd (send_single_message e b m)) = dry_run m"
  "config (delay_manager (snd (send_single_message e b m))) = config (delay_manager m)"
  by (simp_all add: send_single_message_def tuple_truthy_def split: sum.split)

lemma send_single_message_dry:
  "dry_run m \<Longrightarrow> snd (send_single_message e b m) = m"
  by (simp add: send_single_message_def split: sum.split)

text \<open>The delay manager after one iteration.\<close>

lemma loop_body_delay_manager:
  "delay_manager (snd (loop_body e n i b m))
     = (let dm1 = snd (can_send_message (check_time e) (delay_manager m));
            s = send_single_message e b (m\<lparr>delay_manager := dm1\<rparr>)
        in if \<not> fst (fst (can_send_message (check_time e) (delay_manager m))) then dm1
           else if int i < int n - 1 \<and> sr_status (fst s) = ''success''
           then snd (wait_between_messages False (wait e) (delay_manager (snd s)))
           else delay_manager (snd s))"
  by (simp add: loop_body_def Let_def case_prod_beta split: option.split)

lemma loop_body_dry_run [simp]:
  "dry_run (snd (loop_body e n i b m)) = dry_run m"
  by (simp add: loop_body_def Let_def case_prod_beta split: option.split)

lemma loop_body_config [simp]:
  "config (delay_manager (snd (loop_body e n i b m))) = config (delay_manager m)"
  by (simp add: loop_body_delay_manager Let_def)

lemma loop_body_dry_kept:
  assumes "dry_run m"
  shows "counters_kept (stats (delay_manager m)) (stats (delay_manager (snd (loop_body e n i b m))))"
proof -
  let ?dm1 = "snd (can_send_message (check_time e) (delay_manager m))"
  have s: "snd (send_single_message e b (m\<lparr>delay_manager := ?dm1\<rparr>)) = m\<lparr>delay_manager := ?dm1\<rparr>"
    using assms by (intro send_single_message_dry) simp
  have k1: "counters_kept (stats (delay_manager m)) (stats ?dm1)"
    by (rule can_send_message_kept)
  have k2: "counters_kept (stats ?dm1) (stats (snd (wait_between_messages False (wait e) ?dm1)))"
    by (rule wait_between_messages_kept)
  show ?thesis
    using k1 counters_kept_trans [OF k1 k2]
    by (simp add: loop_body_delay_manager Let_def s)
qed

lemma send_loop_frame [simp]:
  "dry_run (send_loop env n i bs m) = dry_run m"
  "config (delay_manager (send_loop env n i bs m)) = config (delay_manager m)"
proof (induction bs arbitrary: i m)
  case Nil
  { case 1 show ?case by simp }
  { case 2 show ?case by simp }
next
  case (Cons b bs)
  { case 1
    have "dry_run (snd (loop_body (env i) n i b m)) = dry_run m" by simp
    then show ?case
      using Cons.IH(1) [of "Suc i" "snd (loop_body (env i) n i b m)"]
      by (cases "loop_body (env i) n i b m"; cases "fst (loop_body (env i) n i b m)") auto }
  { case 2
    have "config (delay_manager (snd (loop_body (env i) n i b m))) = config (delay_manager m)"
      by simp
    then show ?case
      using Cons.IH(2) [of "Suc i" "snd (loop_body (env i) n i b m)"]
      by (cases "loop_body (env i) n i b m"; cases "fst (loop_body (env i) n i b m)") auto }
qed

lemma send_loop_dry_kept:
  assumes "dry_run m"
  shows "counters_kept (stats (delay_manager m)) (stats (delay_manager (send_loop env n i bs m)))"
  using assms
proof (induction bs arbitrary: i m)
  case Nil
  show ?case by simp
next
  case (Cons b bs)
  let ?m1 = "snd (loop_body (env i) n i b m)"
  have k1: "counters_kept (stats (delay_manager m)) (stats (delay_manager ?m1))"
    using Cons.prems by (rule loop_body_dry_kept)
  have d1: "dry_run ?m1" using Cons.prems by simp
  have k2: "counters_kept (stats (delay_manager ?m1))
              (stats (delay_manager (send_loop env n (Suc i) bs ?m1)))"
    using d1 by (rule Cons.IH)
  show ?case
    using k1 counters_kept_trans [OF k1 k2]
    by (cases "loop_body (env i) n i b m"; cases "fst (loop_body (env i) n i b m)") auto
qed

lemma send_messages_progress:
  "results (progress (send_messages t1 env t2 f bs m))
     = results (progress (send_loop env (length bs) 0 bs (m\<lparr>progress := (progress m)\<lparr>start_time := Some t1\<rparr>\<rparr>)))"
  "sent (progress (send_messages t1 env t2 f bs m))
     = sent (progress (send_loop env (length bs) 0 bs (m\<lparr>progress := (progress m)\<lparr>start_time := Some t1\<rparr>\<rparr>)))"
  "skipped (progress (send_messages t1 env t2 f bs m))
     = skipped (progress (send_loop env (length bs) 0 bs (m\<lparr>progress := (progress m)\<lparr>start_time := Some t1\<rparr>\<rparr>)))"
  "processed (progress (send_messages t1 env t2 f bs m))
     = processed (progress (send_loop env (length bs) 0 bs (m\<lparr>progress := (progress m)\<lparr>start_time := Some t1\<rparr>\<rparr>)))"
  "delay_manager (send_messages t1 env t2 f bs m)
     = delay_manager (send_loop env (length bs) 0 bs (m\<lparr>progress := (progress m)\<lparr>start_time := Some t1\<rparr>\<rparr>))"
  by (simp_all add: send_messages_def Let_def)

lemma send_messages_effect:
  "\<exists>rs. results (progress (send_messages t1 env t2 f bs m)) = results (progress m) @ rs
       \<and> in_order (map result_ident rs) bs
       \<and> sent (progress (send_messages t1 env t2 f bs m)) = sent (progress m) + successes rs
       \<and> (skipped (progress (send_messages t1 env t2 f bs m)) = skipped (progress m)
            \<longrightarrow> processed (progress (send_messages t1 env t2 f bs m))
                  = processed (progress m) + int (length bs))"
  using send_loop_progress
    [of env "length bs" 0 bs "m\<lparr>progress := (progress m)\<lparr>start_time := Some t1\<rparr>\<rparr>"]
  by (simp add: send_messages_progress)

lemma send_messages_dry_kept:
  assumes "dry_run m"
  shows "counters_kept (stats (delay_manager m))
           (stats (delay_manager (send_messages t1 env t2 f bs m)))"
  using send_loop_dry_kept
    [of "m\<lparr>progress := (progress m)\<lparr>start_time := Some t1\<rparr>\<rparr>" env "length bs" 0 bs] assms
  by (simp add: send_messages_progress)

lemma load_businesses_frame [simp]:
  "delay_manager (snd (load_businesses bs m)) = delay_manager m"
  "dry_run (snd (load_businesses bs m)) = dry_run m"
  "results (progress (snd (load_businesses bs m))) = results (progress m)"
  "sent (progress (snd (load_businesses bs m))) = sent (progress m)"
  "skipped (progress (snd (load_businesses bs m))) = skipped (progress m)"
  "processed (progress (snd (load_businesses bs m))) = processed (progress m)"
  by (simp_all add: load_businesses_def Let_def)


lemma wait_disabled [simp]:
  "\<not> enable_delays (config dm) \<Longrightarrow> wait_between_messages False w dm = (None, dm)"
  by (simp add: wait_between_messages_def)

lemma loop_body_sent_live:
  assumes ok: "fst (fst (can_send_message (check_time e) (delay_manager m)))"
    and live: "\<not> dry_run m" and msg: "compose e = Inr msg" and r: "transport e = Inr r"
    and nd: "\<not> enable_delays (config (delay_manager m))"
  shows "fst (loop_body e n i b m) = Next"
    and "results (progress (snd (loop_body e n i b m)))
           = results (progress m) @
             [\<lparr>mr_business_name = business_name b, mr_phone = phone b,
               mr_message_type = detect_message_type b, mr_status = ''success'',
               mr_error = None, mr_timestamp = result_time e,
               mr_message_preview = message_preview (Some msg)\<rparr>]"
    and "processed (progress (snd (loop_body e n i b m))) = processed (progress m) + 1"
    and "last_processed_index (progress (snd (loop_body e n i b m))) = int i"
    and "delay_manager (snd (loop_body e n i b m))
           = record_message_sent (sent_time e) (stats_fault e)
               (snd (can_send_message (check_time e) (delay_manager m)))"
  using assms
  by (simp_all add: loop_body_def Let_def case_prod_beta send_single_message_def
        tuple_truthy_def)

lemma loop_body_blocked:
  assumes "\<not> fst (fst (can_send_message (check_time e) (delay_manager m)))"
  shows "fst (loop_body e n i b m) = Break"
    and "results (progress (snd (loop_body e n i b m)))
           = results (progress m) @
             [\<lparr>mr_business_name = business_name b, mr_phone = phone b,
               mr_message_type = detect_message_type b, mr_status = ''skipped'',
               mr_error = snd (fst (can_send_message (check_time e) (delay_manager m))),
               mr_timestamp = result_time e, mr_message_preview = None\<rparr>]"
    and "processed (progress (snd (loop_body e n i b m))) = processed (progress m)"
    and "last_processed_index (progress (snd (loop_body e n i b m)))
           = last_processed_index (progress m)"
    and "skipped (progress (snd (loop_body e n i b m))) = skipped (progress m) + 1"
    and "sent (progress (snd (loop_body e n i b m))) = sent (progress m)"
    and "failed (progress (snd (loop_body e n i b m))) = failed (progress m)"
    and "delay_manager (snd (loop_body e n i b m))
           = snd (can_send_message (check_time e) (delay_manager m))"
  using assms
  by (simp_all add: loop_body_def Let_def case_prod_beta message_preview_def)

lemma can_send_under_cap:
  assumes cap: "hourly_capped cfg H" and st: "cap_state cfg now k m" and le: "k \<le> H"
    and d: "dt_date (check_time e) = dt_date now" and h: "dt_hour (check_time e) = dt_hour now"
  shows "fst (can_send_message (check_time e) (delay_manager m))
           = (if k < H then (True, None) else (False, Some (hourly_limit_reason cfg)))"
    and "sent_this_hour (stats (snd (can_send_message (check_time e) (delay_manager m)))) = int k"
    and "sent_today (stats (snd (can_send_message (check_time e) (delay_manager m)))) = int k"
    and "current_date (stats (snd (can_send_message (check_time e) (delay_manager m))))
           = Some (dt_date now)"
    and "current_hour (stats (snd (can_send_message (check_time e) (delay_manager m))))
           = Some (dt_hour now)"
  using assms
  by (auto simp add: can_send_message_def Let_def cap_state_def hourly_capped_def)


lemma send_loop_Next:
  "fst (loop_body (env i) n i b m) = Next
   \<Longrightarrow> send_loop env n i (b # bs) m = send_loop env n (Suc i) bs (snd (loop_body (env i) n i b m))"
  by (cases "loop_body (env i) n i b m") simp

lemma send_loop_Break:
  "fst (loop_body (env i) n i b m) = Break
   \<Longrightarrow> send_loop env n i (b # bs) m = snd (loop_body (env i) n i b m)"
  by (cases "loop_body (env i) n i b m") simp

lemma capped_run:
  assumes cap: "hourly_capped cfg H" and env: "sends_succeed env now"
    and st: "cap_state cfg now k m" and le: "k \<le> H"
  shows "\<exists>rs. results (progress (send_loop env n i bs m)) = results (progress m) @ rs
          \<and> map mr_status rs
              = replicate (min (length bs) (H - k)) ''success''
                @ (if H - k < length bs then [''skipped''] else [])
          \<and> map mr_error rs
              = replicate (min (length bs) (H - k)) None
                @ (if H - k < length bs then [Some (hourly_limit_reason cfg)] else [])
          \<and> processed (progress (send_loop env n i bs m))
              = processed (progress m) + int (min (length bs) (H - k))"
  using st le
proof (induction bs arbitrary: k m i)
  case Nil
  show ?case by simp
next
  case (Cons b bs)
  let ?e = "env i"
  let ?m1 = "snd (loop_body ?e n i b m)"
  have d: "dt_date (check_time ?e) = dt_date now" and h: "dt_hour (check_time ?e) = dt_hour now"
    using env by (simp_all add: sends_succeed_def)
  have c: "\<not> isl (compose ?e)" and t: "\<not> isl (transport ?e)"
    using env by (simp_all add: sends_succeed_def)
  obtain msg where msg: "compose ?e = Inr msg"
    using c by (cases "compose ?e") auto
  obtain r where r: "transport ?e = Inr r"
    using t by (cases "transport ?e") auto
  note cs = can_send_under_cap [OF cap Cons.prems(1) Cons.prems(2) d h]
  have live: "\<not> dry_run m" and cfg: "config (delay_manager m) = cfg"
    using Cons.prems(1) by (simp_all add: cap_state_def)
  have nd: "\<not> enable_delays (config (delay_manager m))"
    using cap cfg by (simp add: hourly_capped_def)
  show ?case
  proof (cases "k < H")
    case True
    have ok: "fst (fst (can_send_message (check_time ?e) (delay_manager m)))"
      using cs(1) True by simp
    note step = loop_body_sent_live [OF ok live msg r nd, of n i b]
    have loop: "send_loop env n i (b # bs) m = send_loop env n (Suc i) bs ?m1"
      using step(1) by (rule send_loop_Next)
    have st1: "cap_state cfg now (Suc k) ?m1"
      using live cfg cs(2-5) by (simp add: cap_state_def step(5))
    from Cons.IH [OF st1, of "Suc i"] True obtain rs where
      res: "results (progress (send_loop env n (Suc i) bs ?m1)) = results (progress ?m1) @ rs"
      and sts: "map mr_status rs
                  = replicate (min (length bs) (H - Suc k)) ''success''
                    @ (if H - Suc k < length bs then [''skipped''] else [])"
      and ers: "map mr_error rs
                  = replicate (min (length bs) (H - Suc k)) None
                    @ (if H - Suc k < length bs then [Some (hourly_limit_reason cfg)] else [])"
      and pr: "processed (progress (send_loop env n (Suc i) bs ?m1))
                 = processed (progress ?m1) + int (min (length bs) (H - Suc k))"
      by auto
    have m1: "min (Suc (length bs)) (H - k) = Suc (min (length bs) (H - Suc k))"
      using True by arith
    have m2: "(H - k < Suc (length bs)) = (H - Suc k < length bs)"
      using True by arith
    show ?thesis
      unfolding loop
      by (rule exI [of _ "\<lparr>mr_business_name = business_name b, mr_phone = phone b,
               mr_message_type = detect_message_type b, mr_status = ''success'',
               mr_error = None, mr_timestamp = result_time ?e,
               mr_message_preview = message_preview (Some msg)\<rparr> # rs"])
         (simp add: res sts ers pr step(2) step(3) m1 m2 del: replicate_Suc length_Cons
            add: replicate_Suc [symmetric])
  next
    case False
    then have kH: "k = H" using Cons.prems(2) by simp
    have blocked: "\<not> fst (fst (can_send_message (check_time ?e) (delay_manager m)))"
      using cs(1) False by simp
    note stop = loop_body_blocked [OF blocked, of n i b]
    have loop: "send_loop env n i (b # bs) m = ?m1"
      using stop(1) by (rule send_loop_Break)
    show ?thesis
      unfolding loop
      by (rule exI [of _ "[\<lparr>mr_business_name = business_name b, mr_phone = phone b,
               mr_message_type = detect_message_type b, mr_status = ''skipped'',
               mr_error = snd (fst (can_send_message (check_time ?e) (delay_manager m))),
               mr_timestamp = result_time ?e, mr_message_preview = None\<rparr>]"])
         (simp add: stop(2) stop(3) kH cs(1) False)
  qed
qed

lemma send_loop_single:
  "send_loop env n i [b] m = snd (loop_body (env i) n i b m)"
  by (cases "loop_body (env i) n i b m"; cases "fst (loop_body (env i) n i b m)") auto

lemma can_send_unlimited:
  "\<not> enable_daily_limit (config dm) \<Longrightarrow> \<not> enable_hourly_limit (config dm)
   \<Longrightarrow> fst (can_send_message now dm) = (True, None)"
  by (simp add: can_send_message_def Let_def)

lemma send_loop_unlimited:
  assumes "\<not> enable_daily_limit (config (delay_manager m))"
    and "\<not> enable_hourly_limit (config (delay_manager m))"
  shows "skipped (progress (send_loop env n i bs m)) = skipped (progress m)"
  using assms
proof (induction bs arbitrary: i m)
  case Nil
  show ?case by simp
next
  case (Cons b bs)
  let ?m1 = "snd (loop_body (env i) n i b m)"
  have ok: "fst (fst (can_send_message (check_time (env i)) (delay_manager m)))"
    using can_send_unlimited [OF Cons.prems] by simp
  from loop_body_progress [of "env i" n i b m] ok
  have nxt: "fst (loop_body (env i) n i b m) = Next"
    and sk: "skipped (progress ?m1) = skipped (progress m)"
    by auto
  have "skipped (progress (send_loop env n (Suc i) bs ?m1)) = skipped (progress ?m1)"
    using Cons.prems by (intro Cons.IH) simp_all
  then show ?case
    using sk by (simp only: send_loop_Next [of env i n b m bs, OF nxt])
qed

lemma hourly_reason_three:
  "hourly_limit_reason scenario_config = ''Hourly limit reached (3 messages)''"
  by (simp add: hourly_limit_reason_def scenario_config_def RateLimitConfig_default_def
        str_int_def digits.simps)

lemma scenario_run_results:
  "map mr_status (results (progress scenario_run))
     = [''success'', ''success'', ''success'', ''skipped'']"
  "map mr_error (results (progress scenario_run))
     = [None, None, None, Some ''Hourly limit reached (3 messages)'']"
  "processed (progress scenario_run) = 3"
proof -
  let ?m = "(live_manager scenario_config)
              \<lparr>progress := (progress (live_manager scenario_config))\<lparr>start_time := Some t0\<rparr>\<rparr>"
  have cap: "hourly_capped scenario_config 3"
    by (simp add: hourly_capped_def scenario_config_def RateLimitConfig_default_def)
  have env: "sends_succeed (\<lambda>_. e_ok) t0"
    by (simp add: sends_succeed_def e_ok_def)
  have st: "cap_state scenario_config t0 0 ?m"
    by (simp add: cap_state_def live_manager_def CampaignManager_init_def
          new_delay_manager_def SendingStats_default_def)
  have empty: "results (progress ?m) = []" "processed (progress ?m) = 0"
    by (simp_all add: live_manager_def CampaignManager_init_def CampaignProgress_default_def)
  have len: "length five_shops = 5" by (simp add: five_shops_def)
  from capped_run [OF cap env st, of "length five_shops" 0 five_shops]
  obtain rs where
    "results (progress (send_loop (\<lambda>_. e_ok) (length five_shops) 0 five_shops ?m))
       = results (progress ?m) @ rs"
    "map mr_status rs = [''success'', ''success'', ''success'', ''skipped'']"
    "map mr_error rs = [None, None, None, Some (hourly_limit_reason scenario_config)]"
    "processed (progress (send_loop (\<lambda>_. e_ok) (length five_shops) 0 five_shops ?m))
       = processed (progress ?m) + 3"
    unfolding len by (auto simp: numeral_3_eq_3)
  then show
    "map mr_status (results (progress scenario_run))
       = [''success'', ''success'', ''success'', ''skipped'']"
    "map mr_error (results (progress scenario_run))
       = [None, None, None, Some ''Hourly limit reached (3 messages)'']"
    "processed (progress scenario_run) = 3"
    using empty
    by (simp_all add: scenario_run_def send_messages_progress hourly_reason_three)
qed

text \<open>
  C1, as amended.  When the rate-limit check of an iteration refuses, the recipient
  of that iteration is recorded as skipped with the blocking reason and the loop
  stops there: the recipients after it get no result, and \<open>processed\<close> does not
  count the skipped one.  In the scenario (\<open>maxPerHour = 3\<close>, delays disabled, five
  recipients, every send succeeds) the run yields three success results followed by
  one skipped result, with \<open>processed = 3\<close>.
\<close>

theorem blocked_check_skips_current_and_stops:
  "(\<not> fst (fst (can_send_message (check_time (env i)) (delay_manager m)))
     \<longrightarrow> results (progress (send_loop env n i (b # bs) m))
           = results (progress m) @
             [\<lparr>mr_business_name = business_name b, mr_phone = phone b,
               mr_message_type = detect_message_type b, mr_status = ''skipped'',
               mr_error = snd (fst (can_send_message (check_time (env i)) (delay_manager m))),
               mr_timestamp = result_time (env i), mr_message_preview = None\<rparr>]
         \<and> processed (progress (send_loop env n i (b # bs) m)) = processed (progress m)
         \<and> skipped (progress (send_loop env n i (b # bs) m)) = skipped (progress m) + 1)
   \<and> map mr_status (results (progress scenario_run))
       = [''success'', ''success'', ''success'', ''skipped'']
   \<and> map mr_error (results (progress scenario_run))
       = [None, None, None, Some ''Hourly limit reached (3 messages)'']
   \<and> processed (progress scenario_run) = 3"
proof -
  have "results (progress (send_loop env n i (b # bs) m))
           = results (progress m) @
             [\<lparr>mr_business_name = business_name b, mr_phone = phone b,
               mr_message_type = detect_message_type b, mr_status = ''skipped'',
               mr_error = snd (fst (can_send_message (check_time (env i)) (delay_manager m))),
               mr_timestamp = result_time (env i), mr_message_preview = None\<rparr>]
         \<and> processed (progress (send_loop env n i (b # bs) m)) = processed (progress m)
         \<and> skipped (progress (send_loop env n i (b # bs) m)) = skipped (progress m) + 1"
    if blocked: "\<not> fst (fst (can_send_message (check_time (env i)) (delay_manager m)))"
    using loop_body_blocked [OF blocked, of n i b]
    by (simp only: send_loop_Break [of env i n b m bs, OF loop_body_blocked(1) [OF blocked]])
  then show ?thesis
    using scenario_run_results by blast
qed

theorem blocked_check_skips_current_and_stops_witness:
  "\<not> fst (fst (can_send_message t0 (delay_manager manager_at_cap)))
   \<and> map mr_status
       (results (progress (send_loop (\<lambda>_. e_ok) 5 3 [shop 4, shop 5] manager_at_cap)))
       = [''skipped'']
   \<and> processed (progress (send_loop (\<lambda>_. e_ok) 5 3 [shop 4, shop 5] manager_at_cap)) = 0"
proof -
  have blocked: "\<not> fst (fst (can_send_message t0 (delay_manager manager_at_cap)))"
    by (simp add: can_send_message_def Let_def manager_at_cap_def new_delay_manager_def
          scenario_config_def RateLimitConfig_default_def)
  have empty: "results (progress manager_at_cap) = []" "processed (progress manager_at_cap) = 0"
    by (simp_all add: manager_at_cap_def live_manager_def CampaignManager_init_def
          CampaignProgress_default_def)
  have e: "check_time e_ok = t0" by (simp add: e_ok_def)
  show ?thesis
    using blocked empty
      blocked_check_skips_current_and_stops
        [where env = "\<lambda>_. e_ok" and i = 3 and m = manager_at_cap and n = 5
           and b = "shop 4" and bs = "[shop 5]"]
    by (simp add: e)
qed

text \<open>
  The claim C1 as stated (every remaining recipient is recorded as skipped: three
  successes followed by two skipped results) fails in its own scenario: the run has
  four results, the fifth recipient has none.
\<close>

theorem scenario_records_one_skipped_result:
  "length (results (progress scenario_run)) = 4
   \<and> map mr_status (results (progress scenario_run))
       \<noteq> [''success'', ''success'', ''success'', ''skipped'', ''skipped'']"
proof -
  have "length (results (progress scenario_run)) = 4"
    using arg_cong [OF scenario_run_results(1), of length] by simp
  then show ?thesis by (simp add: scenario_run_results(1))
qed

section \<open>Properties of a dry run and of a resumed run\<close>

lemma read_statistics_frame [simp]:
  "progress (read_statistics t m) = progress m"
  "dry_run (read_statistics t m) = dry_run m"
  by (simp_all add: read_statistics_def split: option.split)

lemma read_statistics_kept:
  "counters_kept (stats (delay_manager m)) (stats (delay_manager (read_statistics t m)))"
  by (simp add: read_statistics_def get_statistics_def can_send_message_kept
        split: option.split)

lemma generate_report_frame [simp]:
  "progress (generate_report rep m) = progress m"
  "dry_run (generate_report rep m) = dry_run m"
  by (simp_all add: generate_report_def)

lemma generate_report_kept:
  "counters_kept (stats (delay_manager m)) (stats (delay_manager (generate_report rep m)))"
  unfolding generate_report_def
  by (blast intro: counters_kept_trans read_statistics_kept)

lemma campaign_entry_frame [simp]:
  "delay_manager (campaign_entry r m) = delay_manager m"
  "dry_run (campaign_entry r m) = dry_run m"
  "results (progress (campaign_entry r m)) = results (progress m)"
  "sent (progress (campaign_entry r m)) = sent (progress m)"
  by (simp_all add: campaign_entry_def case_prod_beta)

text \<open>
  A campaign that has businesses to process and, in live mode, a browser: it is the
  loop on the entry state, then the end of the tracking, then the report.
\<close>

lemma run_campaign_started:
  assumes "fst (load_businesses (excel r) m) \<noteq> []" and "dry_run m \<or> whatsapp_ok r"
  shows "snd (run_campaign r m)
           = generate_report (report r)
               ((send_messages (loop_start r) (steps r) (loop_end r) (final_fault r)
                   (fst (load_businesses (excel r) m)) (campaign_entry r m))
                \<lparr>analytics_tracker :=
                   end_campaign (arith r) (campaign_end r) (elapsed_seconds r)
                     (analytics_tracker
                        (send_messages (loop_start r) (steps r) (loop_end r) (final_fault r)
                           (fst (load_businesses (excel r) m)) (campaign_entry r m)))\<rparr>)"
  using assms
  by (auto simp add: run_campaign_def campaign_entry_def case_prod_beta Let_def)

lemma run_campaign_not_started:
  assumes "fst (load_businesses (excel r) m) = []"
  shows "snd (run_campaign r m) = snd (load_businesses (excel r) m)"
  using assms by (simp add: run_campaign_def case_prod_beta Let_def)

lemma dry_attempt:
  "dry_run m \<Longrightarrow> compose e = Inr msg
   \<Longrightarrow> send_single_message e b m
         = (\<lparr>sr_status = ''success'', sr_error = None, sr_message = Some msg\<rparr>, m)"
  by (simp add: send_single_message_def)

lemma dry_campaign_effect:
  assumes "dry_run m"
  shows "counters_kept (stats (delay_manager m)) (stats (delay_manager (snd (run_campaign r m))))"
    and "\<exists>rs. results (progress (snd (run_campaign r m))) = results (progress m) @ rs
             \<and> sent (progress (snd (run_campaign r m))) = sent (progress m) + successes rs"
proof -
  let ?bs = "fst (load_businesses (excel r) m)"
  let ?m3 = "send_messages (loop_start r) (steps r) (loop_end r) (final_fault r) ?bs
               (campaign_entry r m)"
  let ?m4 = "?m3\<lparr>analytics_tracker :=
               end_campaign (arith r) (campaign_end r) (elapsed_seconds r)
                 (analytics_tracker ?m3)\<rparr>"
  have k3: "counters_kept (stats (delay_manager m)) (stats (delay_manager ?m3))"
    using send_messages_dry_kept [of "campaign_entry r m"] assms by simp
  have k4: "counters_kept (stats (delay_manager ?m3))
              (stats (delay_manager (generate_report (report r) ?m4)))"
    using generate_report_kept [of ?m4 "report r"] by simp
  from send_messages_effect
    [of "loop_start r" "steps r" "loop_end r" "final_fault r" ?bs "campaign_entry r m"]
  obtain rs where rs:
    "results (progress ?m3) = results (progress m) @ rs"
    "sent (progress ?m3) = sent (progress m) + successes rs"
    by auto
  show "counters_kept (stats (delay_manager m))
          (stats (delay_manager (snd (run_campaign r m))))"
  proof (cases "?bs = []")
    case True
    then show ?thesis by (simp add: run_campaign_not_started)
  next
    case False
    then show ?thesis
      using counters_kept_trans [OF k3 k4] assms by (simp add: run_campaign_started)
  qed
  show "\<exists>rs. results (progress (snd (run_campaign r m))) = results (progress m) @ rs
             \<and> sent (progress (snd (run_campaign r m))) = sent (progress m) + successes rs"
  proof (cases "?bs = []")
    case True
    then show ?thesis by (simp add: run_campaign_not_started successes_def)
  next
    case False
    then show ?thesis
      using rs assms by (simp add: run_campaign_started)
  qed
qed

text \<open>
  C10, as amended.  In dry-run mode an attempt whose message is composed returns
  status success and leaves the manager as it was: \<open>record_message_sent\<close> is not
  called.  Over a whole dry-run campaign, the report included, no counter of the
  delay manager is incremented: \<open>total_sent\<close> is unchanged, and each of \<open>sent_today\<close>,
  \<open>sent_this_hour\<close> and \<open>messages_since_batch_delay\<close> is unchanged or has been reset to
  0 (by the bucket rollover of \<open>can_send_message\<close>, by a batch delay of
  \<open>wait_between_messages\<close>); \<open>progress.sent\<close> grows by one for every result with
  status success.
\<close>

theorem dry_run_never_increments_counters:
  assumes "dry_run m"
  shows "(compose e = Inr msg
            \<longrightarrow> send_single_message e b m
                  = (\<lparr>sr_status = ''success'', sr_error = None, sr_message = Some msg\<rparr>, m))
       \<and> counters_kept (stats (delay_manager m)) (stats (delay_manager (snd (run_campaign r m))))
       \<and> (\<exists>rs. results (progress (snd (run_campaign r m))) = results (progress m) @ rs
               \<and> sent (progress (snd (run_campaign r m))) = sent (progress m) + successes rs)"
  using dry_attempt [OF assms] dry_campaign_effect [OF assms] by blast

theorem dry_run_never_increments_counters_witness:
  "dry_run (dry_manager scenario_config)
   \<and> compose e_ok = Inr ''Hello''
   \<and> sr_status (fst (send_single_message e_ok (shop 1) (dry_manager scenario_config)))
       = ''success''
   \<and> total_sent (stats (delay_manager (snd (run_campaign one_shop_run
                                               (dry_manager scenario_config))))) = 0"
proof -
  have d: "dry_run (dry_manager scenario_config)"
    by (simp add: dry_manager_def CampaignManager_init_def)
  have c: "compose e_ok = Inr ''Hello''" by (simp add: e_ok_def)
  have z: "total_sent (stats (delay_manager (dry_manager scenario_config))) = 0"
    by (simp add: dry_manager_def CampaignManager_init_def new_delay_manager_def
          SendingStats_default_def)
  show ?thesis
    using d c z
      dry_run_never_increments_counters
        [OF d, where e = e_ok and msg = "''Hello''" and b = "shop 1" and r = one_shop_run]
    by (simp add: counters_kept_def)
qed

text \<open>
  The claim C10 as stated fails in two places.  The counters do not remain unchanged:
  with statistics carried over from the hour before, the first rate-limit check of
  the dry run resets \<open>sent_this_hour\<close> from 4 to 0.  And a rate limit can block a
  dry run on counters that no previous run has left: with an hourly cap of 0, a new
  manager, all counters 0, is refused at the first check and the campaign records a
  skipped result.
\<close>

theorem dry_run_resets_hour_counter:
  "dry_run manager_from_last_hour
   \<and> sent_this_hour (stats (delay_manager manager_from_last_hour)) = 4
   \<and> sent_this_hour
       (stats (delay_manager (snd (run_campaign one_shop_run manager_from_last_hour)))) = 0
   \<and> dry_run (dry_manager zero_cap_config)
   \<and> stats (delay_manager (dry_manager zero_cap_config))
       = SendingStats_default\<lparr>next_batch_delay_at := 10\<rparr>
   \<and> map mr_status
       (results (progress (snd (run_campaign one_shop_run (dry_manager zero_cap_config)))))
       = [''skipped'']"
proof -
  have ct: "check_time e_ok = t0" by (simp add: e_ok_def)
  have started: "fst (load_businesses (excel one_shop_run) m) = [shop 1]"
    if "last_processed_index (progress m) = - 1" for m
    using that by (simp add: load_businesses_def one_shop_run_def)
  have single: "send_messages (loop_start one_shop_run) (steps one_shop_run)
                  (loop_end one_shop_run) (final_fault one_shop_run) [shop 1] m'
                = save_progress NoFault
                    ((snd (loop_body e_ok 1 0 (shop 1)
                             (m'\<lparr>progress := (progress m')\<lparr>start_time := Some t0\<rparr>\<rparr>)))
                     \<lparr>progress :=
                        (progress (snd (loop_body e_ok 1 0 (shop 1)
                                     (m'\<lparr>progress := (progress m')\<lparr>start_time := Some t0\<rparr>\<rparr>))))
                        \<lparr>end_time := Some t0\<rparr>\<rparr>)"
    for m'
    by (simp add: send_messages_def Let_def one_shop_run_def send_loop_single
          del: send_loop.simps)

  let ?m = manager_from_last_hour
  let ?e = "(campaign_entry one_shop_run ?m)
              \<lparr>progress := (progress (campaign_entry one_shop_run ?m))\<lparr>start_time := Some t0\<rparr>\<rparr>"
  have d: "dry_run ?m"
    by (simp add: manager_from_last_hour_def dry_manager_def CampaignManager_init_def)
  have four: "sent_this_hour (stats (delay_manager ?m)) = 4"
    by (simp add: manager_from_last_hour_def)
  have hour: "current_hour (stats (delay_manager ?m)) = Some 8"
    by (simp add: manager_from_last_hour_def)
  have idx: "last_processed_index (progress ?m) = - 1"
    by (simp add: manager_from_last_hour_def dry_manager_def CampaignManager_init_def
          CampaignProgress_default_def)
  have loop0: "sent_this_hour (stats (delay_manager (snd (loop_body e_ok 1 0 (shop 1) ?e)))) = 0"
    using hour d
    by (simp add: loop_body_delay_manager Let_def send_single_message_dry
          can_send_message_def ct t0_def)
  have kept: "counters_kept (stats (delay_manager (snd (loop_body e_ok 1 0 (shop 1) ?e))))
                (stats (delay_manager (snd (run_campaign one_shop_run ?m))))"
    using generate_report_kept
      [of "(send_messages (loop_start one_shop_run) (steps one_shop_run)
              (loop_end one_shop_run) (final_fault one_shop_run) [shop 1]
              (campaign_entry one_shop_run ?m))
           \<lparr>analytics_tracker :=
              end_campaign (arith one_shop_run) (campaign_end one_shop_run)
                (elapsed_seconds one_shop_run)
                (analytics_tracker
                   (send_messages (loop_start one_shop_run) (steps one_shop_run)
                      (loop_end one_shop_run) (final_fault one_shop_run) [shop 1]
                      (campaign_entry one_shop_run ?m)))\<rparr>" "report one_shop_run"]
      d
    by (simp add: run_campaign_started started [OF idx] single del: One_nat_def)
  have first: "sent_this_hour
                 (stats (delay_manager (snd (run_campaign one_shop_run ?m)))) = 0"
    using kept loop0 by (auto simp: counters_kept_def)

  let ?z = "dry_manager zero_cap_config"
  let ?ez = "(campaign_entry one_shop_run ?z)
               \<lparr>progress := (progress (campaign_entry one_shop_run ?z))\<lparr>start_time := Some t0\<rparr>\<rparr>"
  have dz: "dry_run ?z"
    by (simp add: dry_manager_def CampaignManager_init_def)
  have sz: "stats (delay_manager ?z) = SendingStats_default\<lparr>next_batch_delay_at := 10\<rparr>"
    by (simp add: dry_manager_def CampaignManager_init_def new_delay_manager_def
          zero_cap_config_def RateLimitConfig_default_def)
  have idz: "last_processed_index (progress ?z) = - 1" "results (progress ?z) = []"
    by (simp_all add: dry_manager_def CampaignManager_init_def CampaignProgress_default_def)
  have blocked: "\<not> fst (fst (can_send_message (check_time e_ok) (delay_manager ?ez)))"
    by (simp add: can_send_message_def Let_def ct dry_manager_def CampaignManager_init_def
          new_delay_manager_def zero_cap_config_def RateLimitConfig_default_def
          SendingStats_default_def)
  have "map mr_status (results (progress (snd (loop_body e_ok 1 0 (shop 1) ?ez)))) = [''skipped'']"
    using idz by (simp add: loop_body_blocked(2) [OF blocked])
  then have second: "map mr_status
                       (results (progress (snd (run_campaign one_shop_run ?z)))) = [''skipped'']"
    using dz by (simp add: run_campaign_started started [OF idz(1)] single del: One_nat_def)
  show ?thesis using d four first dz sz second by simp
qed

text \<open>
  C3, as amended.  A run resumed with restored \<open>last_processed_index = k\<close>
  (\<open>-1 \<le> k < n\<close>) hands to the loop exactly the recipients at original indices
  greater than \<open>k\<close>, in the original order; every result it records belongs to one of
  them, in that order; and when the resumed run is not stopped by the rate limit
  (it records no skipped result), \<open>processed\<close>, restored as \<open>k + 1\<close>, ends at the
  length of the original list.
\<close>

theorem resumed_run_continues_after_index:
  assumes "- 1 \<le> k" and "k < int (length bs)"
    and "last_processed_index (progress m) = k" and "processed (progress m) = k + 1"
  shows "fst (load_businesses bs m) = drop (nat (k + 1)) bs
       \<and> (\<exists>rs. results (progress (resume_run t1 env t2 f bs m)) = results (progress m) @ rs
               \<and> in_order (map result_ident rs) (drop (nat (k + 1)) bs))
       \<and> (skipped (progress (resume_run t1 env t2 f bs m)) = skipped (progress m)
            \<longrightarrow> processed (progress (resume_run t1 env t2 f bs m)) = int (length bs))"
proof -
  let ?rest = "fst (load_businesses bs m)"
  let ?m1 = "snd (load_businesses bs m)"
  have rest: "?rest = drop (nat (k + 1)) bs"
    using assms(1,3) by (cases "0 \<le> k") (simp_all add: load_businesses_def Let_def)
  have run: "resume_run t1 env t2 f bs m = send_messages t1 env t2 f ?rest ?m1"
    by (simp add: resume_run_def case_prod_beta)
  have len: "k + 1 + int (length ?rest) = int (length bs)"
    using assms(1,2) by (simp add: rest)
  from send_messages_effect [of t1 env t2 f ?rest ?m1]
  obtain rs where
    res: "results (progress (send_messages t1 env t2 f ?rest ?m1)) = results (progress m) @ rs"
    and ord: "in_order (map result_ident rs) ?rest"
    and pr: "skipped (progress (send_messages t1 env t2 f ?rest ?m1)) = skipped (progress m)
             \<longrightarrow> processed (progress (send_messages t1 env t2 f ?rest ?m1))
                   = processed (progress m) + int (length ?rest)"
    by auto
  have "\<exists>rs. results (progress (resume_run t1 env t2 f bs m)) = results (progress m) @ rs
             \<and> in_order (map result_ident rs) (drop (nat (k + 1)) bs)"
    using res ord by (auto simp: run rest [symmetric])
  moreover have "skipped (progress (resume_run t1 env t2 f bs m)) = skipped (progress m)
            \<longrightarrow> processed (progress (resume_run t1 env t2 f bs m)) = int (length bs)"
    using pr len assms(4) by (simp add: run)
  ultimately show ?thesis using rest by blast
qed

lemma restored_manager_progress:
  "last_processed_index (progress (restored_manager cfg)) = 0"
  "processed (progress (restored_manager cfg)) = 1"
  "skipped (progress (restored_manager cfg)) = 0"
  "results (progress (restored_manager cfg)) = []"
  "dry_run (restored_manager cfg) = False"
  "delay_manager (restored_manager cfg) = new_delay_manager cfg"
  by (simp_all add: restored_manager_def CampaignManager_init_def load_progress_def
        progress_after_one_def CampaignProgress_default_def)

theorem resumed_run_continues_after_index_witness:
  "last_processed_index (progress (restored_manager test_config)) = 0
   \<and> processed (progress (restored_manager test_config)) = 1
   \<and> fst (load_businesses five_shops (restored_manager test_config)) = drop 1 five_shops
   \<and> processed
       (progress (resume_run t0 (\<lambda>_. e_ok) t0 NoFault five_shops (restored_manager test_config)))
       = 5"
proof -
  let ?m = "restored_manager test_config"
  let ?m1 = "snd (load_businesses five_shops ?m)"
  have len: "length five_shops = 5" by (simp add: five_shops_def)
  have cfg: "\<not> enable_daily_limit (config (delay_manager ?m))"
            "\<not> enable_hourly_limit (config (delay_manager ?m))"
    by (simp_all add: restored_manager_progress new_delay_manager_def test_config_def)
  have "skipped (progress (send_loop (\<lambda>_. e_ok)
                  (length (fst (load_businesses five_shops ?m))) 0
                  (fst (load_businesses five_shops ?m))
                  (?m1\<lparr>progress := (progress ?m1)\<lparr>start_time := Some t0\<rparr>\<rparr>)))
          = skipped (progress (?m1\<lparr>progress := (progress ?m1)\<lparr>start_time := Some t0\<rparr>\<rparr>))"
    using cfg by (intro send_loop_unlimited) simp_all
  then have sk: "skipped (progress (resume_run t0 (\<lambda>_. e_ok) t0 NoFault five_shops ?m))
                   = skipped (progress ?m)"
    by (simp add: resume_run_def case_prod_beta send_messages_progress)
  show ?thesis
    using sk len
      resumed_run_continues_after_index
        [where k = 0 and bs = five_shops and m = ?m and ?t1.0 = t0 and env = "\<lambda>_. e_ok"
           and ?t2.0 = t0 and f = NoFault]
    by (simp add: restored_manager_progress)
qed

text \<open>
  The claim C3 as stated (the final \<open>processed\<close> equals the length of the list, for
  every resumed run) fails when the rate limit stops the resumed run: with one
  message an hour, five recipients and index 0 restored, the resumed run sends to
  the second recipient, skips the third, and ends with \<open>processed = 2\<close>.
\<close>

theorem resumed_run_stopped_by_limit:
  "last_processed_index (progress (restored_manager one_an_hour_config)) = 0
   \<and> processed (progress (restored_manager one_an_hour_config)) = 1
   \<and> length five_shops = 5
   \<and> processed
       (progress (resume_run t0 (\<lambda>_. e_ok) t0 NoFault five_shops
                    (restored_manager one_an_hour_config))) = 2"
proof -
  let ?m = "restored_manager one_an_hour_config"
  let ?rest = "fst (load_businesses five_shops ?m)"
  let ?m1 = "snd (load_businesses five_shops ?m)"
  let ?m2 = "?m1\<lparr>progress := (progress ?m1)\<lparr>start_time := Some t0\<rparr>\<rparr>"
  have len: "length five_shops = 5" by (simp add: five_shops_def)
  have rest: "length ?rest = 4"
    by (simp add: load_businesses_def Let_def restored_manager_progress len)
  have cap: "hourly_capped one_an_hour_config 1"
    by (simp add: hourly_capped_def one_an_hour_config_def RateLimitConfig_default_def)
  have env: "sends_succeed (\<lambda>_. e_ok) t0"
    by (simp add: sends_succeed_def e_ok_def)
  have st: "cap_state one_an_hour_config t0 0 ?m2"
    by (simp add: cap_state_def restored_manager_progress new_delay_manager_def
          SendingStats_default_def)
  from capped_run [OF cap env st, of "length ?rest" 0 ?rest]
  have "processed (progress (send_loop (\<lambda>_. e_ok) (length ?rest) 0 ?rest ?m2))
          = processed (progress ?m2) + 1"
    by (auto simp: rest)
  then have "processed (progress (resume_run t0 (\<lambda>_. e_ok) t0 NoFault five_shops ?m)) = 2"
    by (simp add: resume_run_def case_prod_beta send_messages_progress
          restored_manager_progress)
  then show ?thesis using len by (simp add: restored_manager_progress)
qed

end
